theory Spec2Isabelle
  imports Main "HOL-Library.AList"
begin

section \<open>Values, errors and the world the script runs in\<close>

text \<open>
  The program is \<^verbatim>\<open>build_linux_mac.py\<close>. Python strings are \<^typ>\<open>string\<close>; a
  \<^verbatim>\<open>dict\<close> of strings is an association list in insertion order, read with
  \<^const>\<open>map_of\<close> and written with \<^const>\<open>AList.update\<close> (an existing key keeps its
  place, a new key goes to the end, as in Python).
\<close>

type_synonym dict = "(string \<times> string) list"

datatype error =
    KeyError string
  | IndexError
  | FileExistsError
  | FileNotFoundError
  | NotADirectoryError
  | IsADirectoryError
  | External string

text \<open>
  Dictionaries are objects: \<^verbatim>\<open>os.environ\<close> is one object, every \<^verbatim>\<open>.copy()\<close>
  allocates another one. A reference is either the ambient environment or the
  number of an allocated object.
\<close>

datatype ref = Environ | Obj nat

text \<open>The file system is a tree; the entries of a directory are kept in listing order.\<close>

datatype node = File | Dir "(string \<times> node) list"

text \<open>
  One call of \<^verbatim>\<open>subprocess.Popen\<close>: the command line, the environment handed to
  the child (\<open>None\<close> when the call passes no \<^verbatim>\<open>env\<close>), the working directory
  (\<open>None\<close> when the call passes no \<^verbatim>\<open>cwd\<close>) and whether \<^verbatim>\<open>stdout=PIPE\<close>.
\<close>

record stage =
  popen_args :: string
  popen_env :: "dict option"
  popen_cwd :: "string option"
  popen_pipe :: bool

text \<open>
  What a started child does, as seen through its pipe: the lines that
  \<^verbatim>\<open>readline\<close> returns while \<^verbatim>\<open>poll()\<close> is still \<^verbatim>\<open>None\<close>, the rest of the
  output, and the exit status. Only children that exit are described.
\<close>

record pipe =
  lines :: "string list"
  rest :: string
  returncode :: int

datatype outcome = Spawn_error error | Spawned pipe node

record world =
  environ :: dict
  objs :: "nat \<Rightarrow> dict"
  next_obj :: nat
  getcwd :: string
  fs :: node
  printed :: "string list"
  invoked :: "stage list"

text \<open>
  Everything outside the script is a parameter: the children (given the number of
  calls made so far, the call and the file system, a child fails to start or runs and
  leaves a file system behind), the network, the tar extractor, the reader of the
  configuration file, and the platform names.
\<close>

record externals =
  runner :: "nat \<Rightarrow> stage \<Rightarrow> node \<Rightarrow> outcome"
  net_fetch :: "string \<Rightarrow> string \<Rightarrow> node \<Rightarrow> error + node"
  tar_extract :: "string \<Rightarrow> string \<Rightarrow> node \<Rightarrow> error + node"
  json_load :: "string \<Rightarrow> node \<Rightarrow> error + dict"
  platform_system :: string
  platform_machine :: string

subsection \<open>Statements: state passing with exceptions\<close>

type_synonym 'a prog = "world \<Rightarrow> (error + 'a) \<times> world"

definition ret :: "'a \<Rightarrow> 'a prog" where
  "ret x = (\<lambda>w. (Inr x, w))"

definition raise :: "error \<Rightarrow> 'a prog" where
  "raise e = (\<lambda>w. (Inl e, w))"

definition bnd :: "'a prog \<Rightarrow> ('a \<Rightarrow> 'b prog) \<Rightarrow> 'b prog" where
  "bnd m f = (\<lambda>w. case m w of (Inl e, w') \<Rightarrow> (Inl e, w') | (Inr x, w') \<Rightarrow> f x w')"

definition thn :: "unit prog \<Rightarrow> 'b prog \<Rightarrow> 'b prog" where
  "thn m k = bnd m (\<lambda>_. k)"

subsection \<open>Dictionary objects\<close>

fun deref :: "world \<Rightarrow> ref \<Rightarrow> dict" where
  "deref w Environ = environ w"
| "deref w (Obj n) = objs w n"

fun assign :: "ref \<Rightarrow> dict \<Rightarrow> world \<Rightarrow> world" where
  "assign Environ d w = w\<lparr>environ := d\<rparr>"
| "assign (Obj n) d w = w\<lparr>objs := (objs w)(n := d)\<rparr>"

definition dict_copy :: "ref \<Rightarrow> ref prog" where
  "dict_copy r = (\<lambda>w. (Inr (Obj (next_obj w)),
     w\<lparr>objs := (objs w)(next_obj w := deref w r), next_obj := Suc (next_obj w)\<rparr>))"

definition setitem :: "ref \<Rightarrow> string \<Rightarrow> string \<Rightarrow> unit prog" where
  "setitem r k v = (\<lambda>w. (Inr (), assign r (AList.update k v (deref w r)) w))"

definition getitem :: "ref \<Rightarrow> string \<Rightarrow> string prog" where
  "getitem r k = (\<lambda>w. case map_of (deref w r) k of
     None \<Rightarrow> (Inl (KeyError k), w) | Some v \<Rightarrow> (Inr v, w))"

subsection \<open>Strings\<close>

text \<open>\<^verbatim>\<open>s.startswith(t)\<close>, \<^verbatim>\<open>s.endswith(t)\<close>, \<^verbatim>\<open>t in s\<close>, \<^verbatim>\<open>s.split(d)\<close> and \<^verbatim>\<open>d.join(xs)\<close>.\<close>

fun startswith :: "string \<Rightarrow> string \<Rightarrow> bool" where
  "startswith s [] = True"
| "startswith [] (c # cs) = False"
| "startswith (x # xs) (c # cs) = (x = c \<and> startswith xs cs)"

definition endswith :: "string \<Rightarrow> string \<Rightarrow> bool" where
  "endswith s t = startswith (rev s) (rev t)"

fun contains :: "string \<Rightarrow> string \<Rightarrow> bool" where
  "contains [] t = (t = [])"
| "contains (c # cs) t = (startswith (c # cs) t \<or> contains cs t)"


fun split_sep :: "char \<Rightarrow> string \<Rightarrow> string list" where
  "split_sep d [] = [[]]"
| "split_sep d (c # cs) =
     (if c = d then [] # split_sep d cs
      else (case split_sep d cs of [] \<Rightarrow> [[c]] | x # xs \<Rightarrow> (c # x) # xs))"

fun join_sep :: "string \<Rightarrow> string list \<Rightarrow> string" where
  "join_sep d [] = []"
| "join_sep d [x] = x"
| "join_sep d (x # y # ys) = x @ d @ join_sep d (y # ys)"

subsection \<open>Paths (\<^verbatim>\<open>posixpath\<close>)\<close>

definition isabs :: "string \<Rightarrow> bool" where
  "isabs p = startswith p ''/''"

definition join_path :: "string \<Rightarrow> string \<Rightarrow> string" where
  "join_path a b =
     (if startswith b ''/'' then b
      else if a = [] \<or> endswith a ''/'' then a @ b
      else a @ ''/'' @ b)"

definition norm_step :: "bool \<Rightarrow> string list \<Rightarrow> string \<Rightarrow> string list" where
  "norm_step initial_slashes new_comps part =
     (if part = [] \<or> part = ''.'' then new_comps
      else if part \<noteq> ''..'' \<or> (\<not> initial_slashes \<and> new_comps = [])
                \<or> (new_comps \<noteq> [] \<and> last new_comps = ''..'')
        then new_comps @ [part]
      else if new_comps \<noteq> [] then butlast new_comps
      else new_comps)"

definition normpath :: "string \<Rightarrow> string" where
  "normpath path =
     (if path = [] then ''.''
      else
        let initial_slashes =
              (if \<not> startswith path ''/'' then 0
               else if startswith path ''//'' \<and> \<not> startswith path ''///'' then 2
               else (1::nat));
            comps = split_sep CHR ''/'' path;
            new_comps = foldl (norm_step (initial_slashes \<noteq> 0)) [] comps;
            path' = replicate initial_slashes CHR ''/'' @ join_sep ''/'' new_comps
        in if path' = [] then ''.'' else path')"

definition abspath :: "string \<Rightarrow> string \<Rightarrow> string" where
  "abspath wd path = normpath (if isabs path then path else join_path wd path)"

subsection \<open>The Environment Composer\<close>

definition get_build_env :: "string \<Rightarrow> string \<Rightarrow> string \<Rightarrow> string \<Rightarrow> ref prog" where
  "get_build_env prefix mingw_gcc elf_gcc target =
     bnd (dict_copy Environ) (\<lambda>env.
     thn (setitem env ''PREFIX'' prefix) (
     thn (setitem env ''TARGET'' target) (
     thn (if elf_gcc \<noteq> []
          then bnd (getitem env ''PATH'') (\<lambda>p. \<lambda>w.
                 setitem env ''PATH'' (abspath (getcwd w) elf_gcc @ ''/bin:'' @ p) w)
          else ret ()) (
     thn (if mingw_gcc \<noteq> []
          then bnd (getitem env ''PATH'') (\<lambda>p. \<lambda>w.
                 setitem env ''PATH'' (abspath (getcwd w) mingw_gcc @ ''/bin:'' @ p) w)
          else ret ()) (
     thn (bnd (getitem env ''PATH'') (\<lambda>p. \<lambda>w.
            setitem env ''PATH'' (abspath (getcwd w) prefix @ ''/bin:'' @ p) w)) (
     ret env))))))"


subsection \<open>The file system\<close>

text \<open>
  A path names a list of directory entries from the root: a relative path is joined to
  the working directory, and empty components, \<^verbatim>\<open>.\<close> and \<^verbatim>\<open>..\<close> are resolved as
  \<^const>\<open>normpath\<close> resolves them (there are no symbolic links in this model). The working
  directory is an absolute path.
\<close>

definition resolve :: "string \<Rightarrow> string \<Rightarrow> string list" where
  "resolve wd path =
     foldl (norm_step True) [] (split_sep CHR ''/'' (if isabs path then path else join_path wd path))"

fun lookup :: "node \<Rightarrow> string list \<Rightarrow> node option" where
  "lookup n [] = Some n"
| "lookup File (c # cs) = None"
| "lookup (Dir es) (c # cs) = (case map_of es c of None \<Rightarrow> None | Some n \<Rightarrow> lookup n cs)"

definition stat :: "world \<Rightarrow> string \<Rightarrow> node option" where
  "stat w path = (if path = [] then None else lookup (fs w) (resolve (getcwd w) path))"

fun is_dir :: "node option \<Rightarrow> bool" where
  "is_dir (Some (Dir es)) = True"
| "is_dir (Some File) = False"
| "is_dir None = False"

fun is_file :: "node option \<Rightarrow> bool" where
  "is_file (Some File) = True"
| "is_file (Some (Dir es)) = False"
| "is_file None = False"

definition isdir :: "world \<Rightarrow> string \<Rightarrow> bool" where
  "isdir w path = is_dir (stat w path)"

text \<open>
  \<^verbatim>\<open>os.makedirs(name, exist_ok=True)\<close>: every missing directory on the way is created;
  the call fails when the name or one of its ancestors is a regular file.
\<close>

fun mkdirs :: "string list \<Rightarrow> node \<Rightarrow> error + node" where
  "mkdirs [] (Dir es) = Inr (Dir es)"
| "mkdirs [] File = Inl FileExistsError"
| "mkdirs (c # cs) File = Inl NotADirectoryError"
| "mkdirs (c # cs) (Dir es) =
     (case mkdirs cs (case map_of es c of None \<Rightarrow> Dir [] | Some n \<Rightarrow> n) of
        Inl e \<Rightarrow> Inl e
      | Inr n' \<Rightarrow> Inr (Dir (AList.update c n' es)))"

definition makedirs :: "string \<Rightarrow> unit prog" where
  "makedirs name = (\<lambda>w.
     if name = [] then (Inl FileNotFoundError, w)
     else case mkdirs (resolve (getcwd w) name) (fs w) of
            Inl e \<Rightarrow> (Inl e, w)
          | Inr t \<Rightarrow> (Inr (), w\<lparr>fs := t\<rparr>))"

text \<open>
  \<^verbatim>\<open>shutil.rmtree(path, ignore_errors)\<close>: a directory goes with everything below it;
  a missing path or a regular file is an error, which \<^verbatim>\<open>ignore_errors=True\<close> drops.
\<close>

fun remove_entry :: "string list \<Rightarrow> node \<Rightarrow> node" where
  "remove_entry [] File = File"
| "remove_entry [] (Dir es) = Dir []"
| "remove_entry (c # cs) File = File"
| "remove_entry [c] (Dir es) = Dir (AList.delete c es)"
| "remove_entry (c # d # ds) (Dir es) =
     (case map_of es c of
        None \<Rightarrow> Dir es
      | Some n \<Rightarrow> Dir (AList.update c (remove_entry (d # ds) n) es))"

definition rmtree :: "string \<Rightarrow> bool \<Rightarrow> unit prog" where
  "rmtree path ignore_errors = (\<lambda>w.
     case stat w path of
       Some (Dir es) \<Rightarrow> (Inr (), w\<lparr>fs := remove_entry (resolve (getcwd w) path) (fs w)\<rparr>)
     | Some File \<Rightarrow> (if ignore_errors then (Inr (), w) else (Inl NotADirectoryError, w))
     | None \<Rightarrow> (if ignore_errors then (Inr (), w) else (Inl FileNotFoundError, w)))"

definition listdir :: "string \<Rightarrow> string list prog" where
  "listdir path = (\<lambda>w.
     case stat w path of
       Some (Dir es) \<Rightarrow> (Inr (map fst es), w)
     | Some File \<Rightarrow> (Inl NotADirectoryError, w)
     | None \<Rightarrow> (Inl FileNotFoundError, w))"

text \<open>Opening a file for writing creates it (or truncates it) in an existing directory.\<close>

fun create :: "string list \<Rightarrow> node \<Rightarrow> error + node" where
  "create [] File = Inr File"
| "create [] (Dir es) = Inl IsADirectoryError"
| "create (c # cs) File = Inl NotADirectoryError"
| "create (c # cs) (Dir es) =
     (case map_of es c of
        None \<Rightarrow> (if cs = [] then Inr (Dir (AList.update c File es)) else Inl FileNotFoundError)
      | Some n \<Rightarrow> (case create cs n of
                    Inl e \<Rightarrow> Inl e
                  | Inr n' \<Rightarrow> Inr (Dir (AList.update c n' es))))"

definition open_w :: "string \<Rightarrow> unit prog" where
  "open_w path = (\<lambda>w.
     if path = [] then (Inl FileNotFoundError, w)
     else case create (resolve (getcwd w) path) (fs w) of
            Inl e \<Rightarrow> (Inl e, w)
          | Inr t \<Rightarrow> (Inr (), w\<lparr>fs := t\<rparr>))"

subsection \<open>\<^verbatim>\<open>glob.glob\<close>\<close>

text \<open>
  \<^verbatim>\<open>fnmatch\<close> for patterns made of literal characters and \<^verbatim>\<open>*\<close>, which are the
  patterns of this script.
\<close>

fun fnmatch :: "string \<Rightarrow> string \<Rightarrow> bool" where
  "fnmatch [] [] = True"
| "fnmatch [] (p # ps) = (p = CHR ''*'' \<and> fnmatch [] ps)"
| "fnmatch (c # cs) [] = False"
| "fnmatch (c # cs) (p # ps) =
     (if p = CHR ''*'' then fnmatch (c # cs) ps \<or> fnmatch cs (p # ps)
      else p = c \<and> fnmatch cs ps)"

text \<open>\<^verbatim>\<open>os.path.split\<close>: the part up to the last slash, without trailing slashes, and the rest.\<close>

definition path_split :: "string \<Rightarrow> string \<times> string" where
  "path_split p =
     (let tail = rev (takeWhile (\<lambda>c. c \<noteq> CHR ''/'') (rev p));
          head = rev (dropWhile (\<lambda>c. c \<noteq> CHR ''/'') (rev p))
      in (if head \<noteq> [] \<and> head \<noteq> replicate (length head) CHR ''/''
          then rev (dropWhile (\<lambda>c. c = CHR ''/'') (rev head)) else head,
          tail))"

definition ishidden :: "string \<Rightarrow> bool" where
  "ishidden name = startswith name ''.''"

text \<open>
  \<^verbatim>\<open>glob.glob(pathname)\<close> for a pathname whose directory part has no wildcard: the
  entries of the directory, in listing order, that match the last component; an entry
  whose name starts with a dot only matches a pattern that starts with a dot; a directory
  that cannot be listed gives the empty list.
\<close>

definition glob1 :: "node option \<Rightarrow> string \<Rightarrow> string \<Rightarrow> string list" where
  "glob1 d dirname pattern =
     (case d of
        Some (Dir es) \<Rightarrow>
          map (join_path dirname)
            (filter (\<lambda>name. (ishidden pattern \<or> \<not> ishidden name) \<and> fnmatch name pattern)
               (map fst es))
      | _ \<Rightarrow> [])"

definition glob :: "string \<Rightarrow> string list prog" where
  "glob pathname = (\<lambda>w.
     let (dirname, basename) = path_split pathname
     in (Inr (glob1 (stat w dirname) dirname basename), w))"

text \<open>\<^verbatim>\<open>glob.glob(pathname)[0]\<close>\<close>

definition glob0 :: "string \<Rightarrow> string prog" where
  "glob0 pathname = bnd (glob pathname) (\<lambda>xs. case xs of [] \<Rightarrow> raise IndexError | x # _ \<Rightarrow> ret x)"

subsection \<open>The Stage Runner\<close>

definition newline :: string where
  "newline = [CHR 0x0A]"

text \<open>\<^verbatim>\<open>print(s)\<close> and \<^verbatim>\<open>print(s, end='')\<close>\<close>

definition print :: "string \<Rightarrow> unit prog" where
  "print s = (\<lambda>w. (Inr (), w\<lparr>printed := printed w @ [s @ newline]\<rparr>))"

definition print_end :: "string \<Rightarrow> unit prog" where
  "print_end s = (\<lambda>w. (Inr (), w\<lparr>printed := printed w @ [s]\<rparr>))"

text \<open>
  \<^verbatim>\<open>subprocess.Popen(args, stdout=..., env=..., cwd=..., shell=True)\<close>: the call is
  recorded with the contents the environment object has at that moment; whether the child
  starts, what it prints, how it exits and what it leaves on disk is the runner's answer.
\<close>

definition popen :: "externals \<Rightarrow> string \<Rightarrow> ref option \<Rightarrow> string option \<Rightarrow> bool \<Rightarrow> pipe prog"
  where
  "popen X a e c pp = (\<lambda>w.
     let st = \<lparr>popen_args = a, popen_env = map_option (deref w) e, popen_cwd = c,
                popen_pipe = pp\<rparr>
     in case runner X (length (invoked w)) st (fs w) of
          Spawn_error err \<Rightarrow> (Inl err, w\<lparr>invoked := invoked w @ [st]\<rparr>)
        | Spawned p t \<Rightarrow> (Inr p, w\<lparr>invoked := invoked w @ [st], fs := t\<rparr>))"

fun print_lines :: "string list \<Rightarrow> unit prog" where
  "print_lines [] = ret ()"
| "print_lines (l # ls) = thn (print_end l) (print_lines ls)"

definition get_subprocess_output :: "pipe \<Rightarrow> unit prog" where
  "get_subprocess_output p = thn (print_lines (lines p)) (print_end (rest p))"

text \<open>\<^verbatim>\<open>p.wait()\<close> returns the exit status.\<close>

definition wait :: "pipe \<Rightarrow> int prog" where
  "wait p = ret (returncode p)"

text \<open>
  The bodies of the four build functions are straight-line code made of four kinds of
  statement:
  \<^item> \<open>Print s\<close>: \<^verbatim>\<open>print(s)\<close>;
  \<^item> \<open>Run a e c\<close>: \<^verbatim>\<open>p = subprocess.Popen(a, stdout=subprocess.PIPE, env=e, cwd=c, shell=True)\<close>
    followed by \<^verbatim>\<open>get_subprocess_output(p)\<close>;
  \<^item> \<open>Spawn a\<close>: \<^verbatim>\<open>p = subprocess.Popen(a, shell=True)\<close> and nothing else;
  \<^item> \<open>Spawn_wait a\<close>: \<^verbatim>\<open>p = subprocess.Popen(a, shell=True)\<close> followed by \<^verbatim>\<open>p.wait()\<close>.
\<close>

datatype stmt =
    Print string
  | Run string ref string
  | Spawn string
  | Spawn_wait string

fun exec_stmt :: "externals \<Rightarrow> stmt \<Rightarrow> unit prog" where
  "exec_stmt X (Print s) = print s"
| "exec_stmt X (Run a e c) = bnd (popen X a (Some e) (Some c) True) get_subprocess_output"
| "exec_stmt X (Spawn a) = bnd (popen X a None None False) (\<lambda>p. ret ())"
| "exec_stmt X (Spawn_wait a) = bnd (popen X a None None False) (\<lambda>p. bnd (wait p) (\<lambda>r. ret ()))"

fun exec :: "externals \<Rightarrow> stmt list \<Rightarrow> unit prog" where
  "exec X [] = ret ()"
| "exec X (s # ss) = thn (exec_stmt X s) (exec X ss)"


subsection \<open>The four Recipes\<close>

text \<open>
  Each build function composes its environment, creates its scratch directories, looks
  its source trees up and then runs its statements. The statements are kept as a list,
  in the order of the source; \<open>wd\<close> is the working directory that
  \<^verbatim>\<open>os.path.abspath\<close> reads, which the script never changes.
\<close>

definition build_elf_toolchain_steps ::
  "string \<Rightarrow> string \<Rightarrow> ref \<Rightarrow> string \<Rightarrow> string \<Rightarrow> string \<Rightarrow> string \<Rightarrow> stmt list" where
  "build_elf_toolchain_steps wd target env binutils gdb gcc prefix =
    [Print ''   Configuring binutils...'',
     Run (''../../'' @ binutils @ ''/configure --target='' @ target @ '' --prefix=''
          @ abspath wd prefix @ '' --disable-nls --disable-werror --without-zstd'')
         env (''build/build-binutils-'' @ target @ ''/''),
     Print ''   Building binutils...'',
     Run (''gmake -j16'')
         env (''build/build-binutils-'' @ target @ ''/''),
     Print ''   Installing binutils...'',
     Run (''gmake install-strip'')
         env (''build/build-binutils-'' @ target @ ''/''),
     Print ''   Download prerequisites...'',
     Run (''contrib/download_prerequisites'')
         env (gcc),
     Print ''   Configuring gcc...'',
     Run (''../../'' @ gcc @ ''/configure --target='' @ target @ '' --prefix=''
          @ abspath wd prefix
          @ '' --disable-nls --disable-multilib --disable-werror --disable-libstdcxx --without-zstd --without-headers --without-newlib --enable-languages=c,c++'')
         env (''build/build-gcc-'' @ target @ ''/''),
     Print ''   Building gcc...'',
     Run (''gmake all-gcc -j16'')
         env (''build/build-gcc-'' @ target @ ''/''),
     Print ''   Installing gcc...'',
     Run (''gmake install-strip-gcc'')
         env (''build/build-gcc-'' @ target @ ''/''),
     Print ''  Building gcc libs...'',
     Run (''gmake all-target-libgcc CFLAGS_FOR_TARGET='' @ [CHR 0x27] @ ''-g -O2 -mno-red-zone''
          @ [CHR 0x27] @ '' -j16'')
         env (''build/build-gcc-'' @ target @ ''/''),
     Print ''   Installing gcc libs...'',
     Run (''gmake install-target-libgcc'')
         env (''build/build-gcc-'' @ target @ ''/''),
     Print ''   Installing gmp...'',
     Run (''gmake install-strip'')
         env (''build/build-gcc-'' @ target @ ''/gmp''),
     Print ''   Installing mpfr...'',
     Run (''gmake install-strip'')
         env (''build/build-gcc-'' @ target @ ''/mpfr''),
     Print ''   Installing mpc...'',
     Run (''gmake install-strip'')
         env (''build/build-gcc-'' @ target @ ''/mpc''),
     Print ''   Configuring gdb...'',
     Run (''../../'' @ gdb @ ''/configure --target='' @ target @ '' --prefix=''
          @ abspath wd prefix @ '' --with-gmp='' @ abspath wd prefix @ '' --with-mpfr=''
          @ abspath wd prefix @ '' --without-zstd --disable-nls --disable-werror'')
         env (''build/build-gdb-'' @ target @ ''/''),
     Print ''   Building gdb...'',
     Run (''gmake all-gdb -j16'')
         env (''build/build-gdb-'' @ target @ ''/''),
     Print ''   Installing gdb...'',
     Run (''gmake install-gdb'')
         env (''build/build-gdb-'' @ target @ ''/'')]"

definition build_elf_toolchain :: "externals \<Rightarrow> string \<Rightarrow> unit prog" where
  "build_elf_toolchain X prefix =
     (let target = ''x86_64-elf'' in
      bnd (get_build_env prefix [] [] target) (\<lambda>env.
      thn (makedirs (''build/build-binutils-'' @ target)) (
      thn (makedirs (''build/build-gdb-'' @ target)) (
      thn (makedirs (''build/build-gcc-'' @ target)) (
      bnd (glob0 ''sources/*binutils*'') (\<lambda>binutils.
      bnd (glob0 ''sources/*gdb*'') (\<lambda>gdb.
      bnd (glob0 ''sources/*gcc*'') (\<lambda>gcc. \<lambda>w.
      exec X (build_elf_toolchain_steps (getcwd w) target env binutils gdb gcc prefix) w))))))))"

definition build_mingw_toolchain_steps1 ::
  "string \<Rightarrow> string \<Rightarrow> ref \<Rightarrow> string \<Rightarrow> string \<Rightarrow> string \<Rightarrow> string \<Rightarrow> stmt list" where
  "build_mingw_toolchain_steps1 wd target env binutils gcc mingw prefix =
    [Print ''   Configuring binutils...'',
     Run (''../../'' @ binutils @ ''/configure --target='' @ target @ '' --prefix=''
          @ abspath wd prefix @ '' --with-sysroot='' @ abspath wd prefix
          @ '' --disable-nls --disable-werror --without-zstd'')
         env (''build/build-binutils-'' @ target @ ''/''),
     Print ''   Building binutils...'',
     Run (''gmake -j16'')
         env (''build/build-binutils-'' @ target @ ''/''),
     Print ''   Installing binutils...'',
     Run (''gmake install-strip'')
         env (''build/build-binutils-'' @ target @ ''/''),
     Print ''  Configuring mingw headers...'',
     Run (''../../'' @ mingw @ ''/mingw-w64-headers/configure --host='' @ target
          @ '' --prefix='' @ abspath wd prefix @ ''/'' @ target)
         env (''build/build-mingw-headers-'' @ target @ ''/''),
     Print ''   Installing mingw headers...'',
     Run (''gmake install'')
         env (''build/build-mingw-headers-'' @ target @ ''/''),
     Print ''   Creating symlink...'',
     Spawn (''ln -s '' @ abspath wd prefix @ ''/'' @ target @ '' '' @ abspath wd prefix
          @ ''/mingw''),
     Print ''   Download prerequisites...'',
     Run (''contrib/download_prerequisites'')
         env (gcc),
     Print ''   Configuring gcc...'',
     Run (''../../'' @ gcc @ ''/configure --target='' @ target @ '' --with-sysroot=''
          @ abspath wd prefix @ '' --with-ld='' @ abspath wd prefix @ ''/bin/'' @ target
          @ ''-ld --with-as='' @ abspath wd prefix @ ''/bin/'' @ target @ ''-as --prefix=''
          @ abspath wd prefix
          @ '' --without-zstd --disable-nls --disable-multilib --disable-werror --enable-languages=c,c++ --enable-threads=posix'')
         env (''build/build-gcc-'' @ target @ ''/''),
     Print ''   Building gcc...'',
     Run (''gmake all-gcc -j16'')
         env (''build/build-gcc-'' @ target @ ''/''),
     Print ''   Installing gcc...'',
     Run (''gmake install-strip-gcc'')
         env (''build/build-gcc-'' @ target @ ''/'')]"

definition build_mingw_toolchain_steps2 ::
  "string \<Rightarrow> string \<Rightarrow> ref \<Rightarrow> ref \<Rightarrow> string \<Rightarrow> string \<Rightarrow> stmt list" where
  "build_mingw_toolchain_steps2 wd target env env_copy mingw prefix =
    [Print ''  Configuring mingw...'',
     Run (''../../'' @ mingw @ ''/mingw-w64-crt/configure --host='' @ target @ '' --prefix=''
          @ abspath wd prefix @ ''/'' @ target @ '' --with-sysroot='' @ abspath wd prefix
          @ ''/'' @ target @ '' --disable-multilib'')
         env_copy (''build/build-mingw-libs-'' @ target @ ''/''),
     Print ''  Building mingw...'',
     Run (''gmake -j16'')
         env_copy (''build/build-mingw-libs-'' @ target @ ''/''),
     Print ''  Installing mingw...'',
     Run (''gmake install-strip'')
         env_copy (''build/build-mingw-libs-'' @ target @ ''/''),
     Print ''  Configuring mingw winpthreads...'',
     Run (''../../'' @ mingw @ ''/mingw-w64-libraries/winpthreads/configure --host='' @ target
          @ '' --with-sysroot='' @ abspath wd prefix @ ''/'' @ target @ '' --prefix=''
          @ abspath wd prefix @ ''/'' @ target)
         env_copy (''build/build-mingw-winpthreads-'' @ target @ ''/''),
     Print ''  Building mingw winpthreads...'',
     Run (''gmake -j16'')
         env_copy (''build/build-mingw-winpthreads-'' @ target @ ''/''),
     Print ''  Installing mingw winpthreads...'',
     Run (''gmake install-strip'')
         env_copy (''build/build-mingw-winpthreads-'' @ target @ ''/''),
     Print ''  Building gcc libs...'',
     Run (''gmake -j16'')
         env (''build/build-gcc-'' @ target @ ''/''),
     Print ''   Installing gcc libs...'',
     Run (''gmake install-strip'')
         env (''build/build-gcc-'' @ target @ ''/'')]"

definition build_mingw_toolchain :: "externals \<Rightarrow> string \<Rightarrow> unit prog" where
  "build_mingw_toolchain X prefix =
     (let target = ''x86_64-w64-mingw32'' in
      bnd (get_build_env prefix [] [] target) (\<lambda>env.
      thn (makedirs (''build/build-binutils-'' @ target)) (
      thn (makedirs (''build/build-gcc-'' @ target)) (
      thn (makedirs (''build/build-mingw-headers-'' @ target)) (
      thn (makedirs (''build/build-mingw-libs-'' @ target)) (
      thn (makedirs (''build/build-mingw-winpthreads-'' @ target)) (
      bnd (glob0 ''sources/*binutils*'') (\<lambda>binutils.
      bnd (glob0 ''sources/*gcc*'') (\<lambda>gcc.
      bnd (glob0 ''sources/*mingw*'') (\<lambda>mingw.
      thn (\<lambda>w. exec X (build_mingw_toolchain_steps1 (getcwd w) target env binutils gcc mingw
                       prefix) w) (
      bnd (dict_copy env) (\<lambda>env_copy.
      thn (setitem env_copy ''CC'' (target @ ''-gcc'')) (
      thn (setitem env_copy ''CXX'' (target @ ''-g++'')) (
      thn (setitem env_copy ''CPP'' (target @ ''-cpp'')) (\<lambda>w.
      exec X (build_mingw_toolchain_steps2 (getcwd w) target env env_copy mingw prefix)
        w)))))))))))))))"

definition build_win_mingw_steps ::
  "string \<Rightarrow> string \<Rightarrow> ref \<Rightarrow> string \<Rightarrow> string \<Rightarrow> string \<Rightarrow> string \<Rightarrow> stmt list" where
  "build_win_mingw_steps wd target env binutils gcc mingw prefix =
    [Print ''   Configuring binutils...'',
     Run (''../../'' @ binutils @ ''/configure --host='' @ target @ '' --target='' @ target
          @ '' --prefix='' @ abspath wd prefix
          @ '' --disable-multilib --disable-nls --disable-werror --without-zstd'')
         env (''build/build-win-binutils-'' @ target @ ''/''),
     Print ''   Building binutils...'',
     Run (''gmake -j16'')
         env (''build/build-win-binutils-'' @ target @ ''/''),
     Print ''   Installing binutils...'',
     Run (''gmake install-strip'')
         env (''build/build-win-binutils-'' @ target @ ''/''),
     Print ''   Download prerequisites...'',
     Run (''contrib/download_prerequisites'')
         env (gcc),
     Print ''   Configuring gcc...'',
     Run (''../../'' @ gcc @ ''/configure --host='' @ target @ '' --target='' @ target
          @ '' --prefix='' @ abspath wd prefix
          @ '' --disable-nls --disable-multilib --disable-werror --without-headers --without-newlib --enable-languages=c'')
         env (''build/build-win-gcc-'' @ target @ ''/''),
     Print ''   Building gcc...'',
     Run (''gmake -j16'')
         env (''build/build-win-gcc-'' @ target @ ''/''),
     Print ''   Installing gcc...'',
     Run (''gmake install-strip'')
         env (''build/build-win-gcc-'' @ target @ ''/''),
     Print ''  Copying libgcc to bin...'',
     Spawn_wait (''cp '' @ abspath wd prefix @ ''/lib/libgcc_s_seh-1.dll '' @ abspath wd prefix
          @ ''/bin/''),
     Print ''  Configuring mingw...'',
     Run (''../../'' @ mingw @ ''/configure --host='' @ target @ '' --prefix=''
          @ abspath wd prefix @ ''/'' @ target
          @ '' --with-libraries=winpthread --disable-multilib'')
         env (''build/build-mingw-libs-'' @ target @ ''/''),
     Print ''  Building mingw...'',
     Run (''gmake -j16'')
         env (''build/build-mingw-libs-'' @ target @ ''/''),
     Print ''  Installing mingw...'',
     Run (''gmake install-strip'')
         env (''build/build-mingw-libs-'' @ target @ ''/''),
     Print ''  Copying libwinpthread to bin...'',
     Spawn_wait (''cp '' @ abspath wd prefix @ ''/'' @ target @ ''/bin/libwinpthread-1.dll ''
          @ abspath wd prefix @ ''/bin/''),
     Print ''   Installing gmp...'',
     Run (''gmake install-strip'')
         env (''build/build-win-gcc-'' @ target @ ''/gmp''),
     Print ''   Installing mpfr...'',
     Run (''gmake install-strip'')
         env (''build/build-win-gcc-'' @ target @ ''/mpfr''),
     Print ''   Installing mpc...'',
     Run (''gmake install-strip'')
         env (''build/build-win-gcc-'' @ target @ ''/mpc'')]"

definition build_win_mingw :: "externals \<Rightarrow> string \<Rightarrow> string \<Rightarrow> unit prog" where
  "build_win_mingw X prefix mingw_prefix =
     (let target = ''x86_64-w64-mingw32'' in
      bnd (get_build_env prefix mingw_prefix [] target) (\<lambda>env.
      thn (makedirs (''build/build-win-binutils-'' @ target)) (
      thn (makedirs (''build/build-win-gcc-'' @ target)) (
      thn (makedirs (''build/build-win-mingw-headers-'' @ target)) (
      thn (makedirs (''build/build-win-mingw-libs-'' @ target)) (
      thn (makedirs (''build/build-win-mingw-winpthreads-'' @ target)) (
      bnd (glob0 ''sources/*binutils*'') (\<lambda>binutils.
      bnd (glob0 ''sources/*gcc*'') (\<lambda>gcc.
      bnd (glob0 ''sources/*mingw*'') (\<lambda>mingw. \<lambda>w.
      exec X (build_win_mingw_steps (getcwd w) target env binutils gcc mingw prefix) w))))))))))"

definition build_win_elf_steps ::
  "string \<Rightarrow> string \<Rightarrow> string \<Rightarrow> ref \<Rightarrow> string \<Rightarrow> string \<Rightarrow> string \<Rightarrow> string \<Rightarrow> string
     \<Rightarrow> stmt list" where
  "build_win_elf_steps wd host target env binutils gdb gcc prefix win_mingw_prefix =
    [Print ''   Configuring binutils...'',
     Run (''../../'' @ binutils @ ''/configure --host='' @ host @ '' --target='' @ target
          @ '' --prefix='' @ abspath wd prefix
          @ '' --disable-nls --disable-werror --without-zstd'')
         env (''build/build-win-elf-binutils-'' @ target @ ''/''),
     Print ''   Building binutils...'',
     Run (''gmake -j16'')
         env (''build/build-win-elf-binutils-'' @ target @ ''/''),
     Print ''   Installing binutils...'',
     Run (''gmake install-strip'')
         env (''build/build-win-elf-binutils-'' @ target @ ''/''),
     Print ''   Download prerequisites...'',
     Run (''contrib/download_prerequisites'')
         env (gcc),
     Print ''   Configuring gcc...'',
     Run (''../../'' @ gcc @ ''/configure --host='' @ host @ '' --target='' @ target
          @ '' --prefix='' @ abspath wd prefix
          @ '' --disable-nls --disable-multilib --disable-werror --disable-libstdcxx --without-zstd --without-headers --without-newlib --enable-languages=c,c++'')
         env (''build/build-win-elf-gcc-'' @ target @ ''/''),
     Print ''   Building gcc...'',
     Run (''gmake all-gcc -j16'')
         env (''build/build-win-elf-gcc-'' @ target @ ''/''),
     Print ''   Installing gcc...'',
     Run (''gmake install-strip-gcc'')
         env (''build/build-win-elf-gcc-'' @ target @ ''/''),
     Print ''  Building gcc libs...'',
     Run (''gmake all-target-libgcc CFLAGS_FOR_TARGET='' @ [CHR 0x27] @ ''-g -O2 -mno-red-zone''
          @ [CHR 0x27] @ '' -j16'')
         env (''build/build-win-elf-gcc-'' @ target @ ''/''),
     Print ''   Installing gcc libs...'',
     Run (''gmake install-target-libgcc'')
         env (''build/build-win-elf-gcc-'' @ target @ ''/''),
     Print ''   Configuring gdb...'',
     Run (''../../'' @ gdb @ ''/configure --host='' @ host @ '' --target='' @ target
          @ '' --prefix='' @ abspath wd prefix @ '' --with-gmp='' @ abspath wd win_mingw_prefix
          @ '' --with-mpfr='' @ abspath wd win_mingw_prefix
          @ '' --without-zstd --disable-nls --disable-werror'')
         env (''build/build-win-elf-gdb-'' @ target @ ''/''),
     Print ''   Building gdb...'',
     Run (''gmake all-gdb -j16'')
         env (''build/build-win-elf-gdb-'' @ target @ ''/''),
     Print ''   Installing gdb...'',
     Run (''gmake install-gdb'')
         env (''build/build-win-elf-gdb-'' @ target @ ''/'')]"

definition build_win_elf ::
  "externals \<Rightarrow> string \<Rightarrow> string \<Rightarrow> string \<Rightarrow> string \<Rightarrow> unit prog" where
  "build_win_elf X prefix mingw_prefix elf_prefix win_mingw_prefix =
     (let host = ''x86_64-w64-mingw32''; target = ''x86_64-elf'' in
      bnd (get_build_env prefix mingw_prefix elf_prefix target) (\<lambda>env.
      thn (makedirs (''build/build-win-elf-binutils-'' @ target)) (
      thn (makedirs (''build/build-win-elf-gdb-'' @ target)) (
      thn (makedirs (''build/build-win-elf-gcc-'' @ target)) (
      bnd (glob0 ''sources/*binutils*'') (\<lambda>binutils.
      bnd (glob0 ''sources/*gdb*'') (\<lambda>gdb.
      bnd (glob0 ''sources/*gcc*'') (\<lambda>gcc. \<lambda>w.
      exec X (build_win_elf_steps (getcwd w) host target env binutils gdb gcc prefix
                win_mingw_prefix) w))))))))"

subsection \<open>Cleanup, download, extraction and the Archiver\<close>

definition cleanup :: "unit prog" where
  "cleanup =
     thn (rmtree ''build'' True) (
     thn (rmtree ''sources'' True) (
          rmtree ''tarballs'' True))"

text \<open>
  \<^verbatim>\<open>urllib.request.urlretrieve(url, filename, reporthook)\<close>: what the transfer leaves
  on disk is the network's answer; the progress lines that \<^verbatim>\<open>reporthook\<close> writes
  depend on the clock and are not recorded.
\<close>

definition urlretrieve :: "externals \<Rightarrow> string \<Rightarrow> string \<Rightarrow> unit prog" where
  "urlretrieve X url filename = (\<lambda>w.
     case net_fetch X url filename (fs w) of
       Inl e \<Rightarrow> (Inl e, w)
     | Inr t \<Rightarrow> (Inr (), w\<lparr>fs := t\<rparr>))"

definition download_sources ::
  "externals \<Rightarrow> string \<Rightarrow> string \<Rightarrow> string \<Rightarrow> string \<Rightarrow> unit prog" where
  "download_sources X binutils_version gdb_version gcc_version mingw_version =
     (let binutils_link = ''https://ftp.gnu.org/gnu/binutils'';
          binutils = ''binutils-'' @ binutils_version;
          binutils_filename = binutils @ ''.tar.gz'';
          gdb_link = ''https://ftp.gnu.org/gnu/gdb'';
          gdb = ''gdb-'' @ gdb_version;
          gdb_filename = gdb @ ''.tar.gz'';
          gcc_link = ''https://ftp.gnu.org/gnu/gcc'';
          gcc = ''gcc-'' @ gcc_version;
          gcc_filename = gcc @ ''.tar.gz'';
          mingw_link =
            ''https://downloads.sourceforge.net/project/mingw-w64/mingw-w64/mingw-w64-release'';
          mingw = ''mingw-w64-v'' @ mingw_version;
          mingw_filename = mingw @ ''.tar.bz2''
      in
      thn (makedirs ''tarballs'') (
      thn (print ''   Downloading binutils...'') (
      thn (urlretrieve X (binutils_link @ ''/'' @ binutils_filename)
             (''tarballs/'' @ binutils_filename)) (
      thn (print []) (
      thn (print ''   Downloading gdb...'') (
      thn (urlretrieve X (gdb_link @ ''/'' @ gdb_filename) (''tarballs/'' @ gdb_filename)) (
      thn (print []) (
      thn (print ''   Downloading gcc...'') (
      thn (urlretrieve X (gcc_link @ ''/'' @ gcc @ ''/'' @ gcc_filename)
             (''tarballs/'' @ gcc_filename)) (
      thn (print []) (
      thn (print ''   Downloading mingw...'') (
      thn (urlretrieve X (mingw_link @ ''/'' @ mingw_filename)
             (''tarballs/'' @ mingw_filename)) (
           print [])))))))))))))"

text \<open>\<^verbatim>\<open>TarFile.open(name, 'r').extractall(path)\<close>\<close>

definition extractall :: "externals \<Rightarrow> string \<Rightarrow> string \<Rightarrow> unit prog" where
  "extractall X name path = (\<lambda>w.
     case tar_extract X name path (fs w) of
       Inl e \<Rightarrow> (Inl e, w)
     | Inr t \<Rightarrow> (Inr (), w\<lparr>fs := t\<rparr>))"

fun extract_each :: "externals \<Rightarrow> string list \<Rightarrow> unit prog" where
  "extract_each X [] = ret ()"
| "extract_each X (filename # filenames) =
     thn (if \<not> contains filename ''.tar.'' then ret ()
          else thn (print (''   Extracting '' @ filename @ ''...''))
                   (extractall X (''tarballs/'' @ filename) ''sources''))
         (extract_each X filenames)"

definition extract_sources :: "externals \<Rightarrow> unit prog" where
  "extract_sources X =
     thn (makedirs ''sources'') (
     bnd (listdir ''tarballs'') (\<lambda>filenames.
          extract_each X filenames))"

text \<open>
  The Archiver. Opening the \<^verbatim>\<open>LZMAFile\<close> for writing creates the archive file; the
  members added to it are read from the install prefix and change nothing on disk
  (the contents of files are not part of this model).
\<close>

definition tar_add :: "string \<Rightarrow> string \<Rightarrow> unit prog" where
  "tar_add name arcname = ret ()"

definition basename :: "string \<Rightarrow> string" where
  "basename p = snd (path_split p)"

fun add_each :: "string \<Rightarrow> string list \<Rightarrow> unit prog" where
  "add_each prefix [] = ret ()"
| "add_each prefix (filename # filenames) =
     (let path = join_path prefix filename in
      thn (tar_add (join_path prefix filename) (basename path)) (add_each prefix filenames))"

definition pack_compiler ::
  "string \<Rightarrow> string \<Rightarrow> string \<Rightarrow> string \<Rightarrow> string \<Rightarrow> unit prog" where
  "pack_compiler archive_prefix prefix arch platform binfmt =
     thn (open_w (join_path archive_prefix
            (arch @ ''-'' @ platform @ ''-'' @ binfmt @ ''-gcc.tar.xz''))) (
     bnd (listdir prefix) (\<lambda>filenames.
          add_each prefix filenames))"

subsection \<open>The Orchestrator\<close>

text \<open>The parsed command line (\<^verbatim>\<open>args\<close>), one field per option.\<close>

record args =
  opt_build_mingw :: bool
  opt_build_elf :: bool
  opt_build_win_mingw :: bool
  opt_build_win_elf :: bool
  opt_pack_mingw :: bool
  opt_pack_elf :: bool
  opt_pack_win_mingw :: bool
  opt_pack_win_elf :: bool
  opt_cleanup :: bool
  opt_config :: string

text \<open>\<^verbatim>\<open>config[k]\<close>\<close>

definition item :: "dict \<Rightarrow> string \<Rightarrow> string prog" where
  "item d k = (case map_of d k of None \<Rightarrow> raise (KeyError k) | Some v \<Rightarrow> ret v)"

text \<open>\<^verbatim>\<open>f = open(path); config = json.load(f); f.close()\<close>\<close>

definition load_config :: "externals \<Rightarrow> string \<Rightarrow> dict prog" where
  "load_config X path = (\<lambda>w.
     case json_load X path (fs w) of Inl e \<Rightarrow> (Inl e, w) | Inr d \<Rightarrow> (Inr d, w))"

definition lower_char :: "char \<Rightarrow> char" where
  "lower_char c =
     (let n = (of_char c :: nat) in if 65 \<le> n \<and> n \<le> 90 then char_of (n + 32) else c)"

definition lower :: "string \<Rightarrow> string" where
  "lower s = map lower_char s"

definition if_then :: "bool \<Rightarrow> unit prog \<Rightarrow> unit prog" where
  "if_then b m = (if b then m else ret ())"

definition main :: "externals \<Rightarrow> args \<Rightarrow> unit prog" where
  "main X a =
     bnd (load_config X (opt_config a)) (\<lambda>config.
     if opt_cleanup a then
       thn (print ''Cleanup...'') (
       thn cleanup (
            print ''Done.''))
     else
       thn (\<lambda>w. if_then (\<not> isdir w ''tarballs'') (
              thn (print ''Downloading sources:'') (
              thn (bnd (item config ''binutils'') (\<lambda>v1.
                   bnd (item config ''gdb'') (\<lambda>v2.
                   bnd (item config ''gcc'') (\<lambda>v3.
                   bnd (item config ''mingw'') (\<lambda>v4.
                   download_sources X v1 v2 v3 v4))))) (
                   print ''Done.''))) w) (
       thn (\<lambda>w. if_then (\<not> isdir w ''sources'') (
              thn (print ''Extracting sources...'') (
              thn (extract_sources X) (
                   print ''Done.''))) w) (
       thn (if_then (opt_build_mingw a) (
              thn (print ''Building MinGW toolchain...'') (
              thn (bnd (item config ''mingw_prefix'') (\<lambda>p. build_mingw_toolchain X p)) (
                   print ''Done.'')))) (
       thn (if_then (opt_build_elf a) (
              thn (print ''Building ELF toolchain...'') (
              thn (bnd (item config ''elf_prefix'') (\<lambda>p. build_elf_toolchain X p)) (
                   print ''Done.'')))) (
       thn (if_then (opt_build_win_mingw a) (
              thn (print ''Building Windows MinGW toolchain...'') (
              thn (bnd (item config ''mingw_win_prefix'') (\<lambda>p.
                   bnd (item config ''mingw_prefix'') (\<lambda>m.
                   build_win_mingw X p m))) (
                   print ''Done.'')))) (
       thn (if_then (opt_build_win_elf a) (
              thn (print ''Building Windows ELF toolchain...'') (
              thn (bnd (item config ''elf_win_prefix'') (\<lambda>p.
                   bnd (item config ''mingw_prefix'') (\<lambda>m.
                   bnd (item config ''elf_prefix'') (\<lambda>e.
                   bnd (item config ''mingw_win_prefix'') (\<lambda>wm.
                   build_win_elf X p m e wm))))) (
                   print ''Done.'')))) (
       let os_name = lower (platform_system X);
           arch = lower (platform_machine X) in
       thn (if_then (opt_pack_mingw a) (
              thn (bnd (item config ''archive_prefix'') makedirs) (
              thn (print (''Packing MinGW for '' @ arch @ ''-'' @ os_name)) (
              thn (bnd (item config ''archive_prefix'') (\<lambda>ap.
                   bnd (item config ''mingw_prefix'') (\<lambda>p.
                   pack_compiler ap p arch os_name ''mingw''))) (
                   print ''Done.''))))) (
       thn (if_then (opt_pack_elf a) (
              thn (bnd (item config ''archive_prefix'') makedirs) (
              thn (print (''Packing ELF for '' @ arch @ ''-'' @ os_name)) (
              thn (bnd (item config ''archive_prefix'') (\<lambda>ap.
                   bnd (item config ''elf_prefix'') (\<lambda>p.
                   pack_compiler ap p arch os_name ''elf''))) (
                   print ''Done.''))))) (
       thn (if_then (opt_pack_win_mingw a) (
              thn (bnd (item config ''archive_prefix'') makedirs) (
              thn (print ''Packing MinGW for amd64-windows'') (
              thn (bnd (item config ''archive_prefix'') (\<lambda>ap.
                   bnd (item config ''mingw_win_prefix'') (\<lambda>p.
                   pack_compiler ap p ''amd64'' ''windows'' ''mingw''))) (
                   print ''Done.''))))) (
            if_then (opt_pack_win_elf a) (
              thn (bnd (item config ''archive_prefix'') makedirs) (
              thn (print ''Packing ELF for amd64-windows'') (
              thn (bnd (item config ''archive_prefix'') (\<lambda>ap.
                   bnd (item config ''elf_win_prefix'') (\<lambda>p.
                   pack_compiler ap p ''amd64'' ''windows'' ''elf''))) (
                   print ''Done.''))))))))))))))"

section \<open>Example states and auxiliary notions\<close>

definition ambient_world :: world where
  "ambient_world = \<lparr>environ = [(''HOME'', ''/root''), (''PATH'', ''/usr/bin:/bin'')],
         objs = (\<lambda>_. []), next_obj = 0, getcwd = ''/work'', fs = Dir [],
         printed = [], invoked = []\<rparr>"

definition bare_world :: world where
  "bare_world = \<lparr>environ = [(''HOME'', ''/root'')],
         objs = (\<lambda>_. []), next_obj = 0, getcwd = ''/work'', fs = Dir [],
         printed = [], invoked = []\<rparr>"

fun precedes :: "'a \<Rightarrow> 'a \<Rightarrow> 'a list \<Rightarrow> bool" where
  "precedes x y [] = False"
| "precedes x y (z # zs) = (if z = x then y \<in> set zs else if z = y then False else precedes x y zs)"

definition scratch_world :: world where
  "scratch_world = \<lparr>environ = [(''PATH'', ''/usr/bin'')], objs = (\<lambda>_. []), next_obj = 0, getcwd = ''/work'',
         fs = Dir [(''work'', Dir [(''tarballs'', Dir [(''gcc-13.2.0.tar.gz'', File)]),
                                   (''sources'', Dir [(''gcc-13.2.0'', Dir [])]),
                                   (''config.json'', File),
                                   (''build'', Dir [(''build-gcc-x86_64-elf'', Dir [])])])],
         printed = [], invoked = []\<rparr>"

definition with_status :: "(nat \<Rightarrow> stage \<Rightarrow> int) \<Rightarrow> externals \<Rightarrow> externals" where
  "with_status f X = X\<lparr>runner := (\<lambda>n st t.
     case runner X n st t of
       Spawn_error e \<Rightarrow> Spawn_error e
     | Spawned p t' \<Rightarrow> Spawned (p\<lparr>returncode := f n st\<rparr>) t')\<rparr>"

fun stages_of :: "world \<Rightarrow> stmt list \<Rightarrow> stage list" where
  "stages_of w [] = []"
| "stages_of w (Print s # ss) = stages_of w ss"
| "stages_of w (Run a e c # ss) =
     \<lparr>popen_args = a, popen_env = Some (deref w e), popen_cwd = Some c, popen_pipe = True\<rparr>
       # stages_of w ss"
| "stages_of w (Spawn a # ss) =
     \<lparr>popen_args = a, popen_env = None, popen_cwd = None, popen_pipe = False\<rparr> # stages_of w ss"
| "stages_of w (Spawn_wait a # ss) =
     \<lparr>popen_args = a, popen_env = None, popen_cwd = None, popen_pipe = False\<rparr> # stages_of w ss"

definition creatable :: "world \<Rightarrow> string \<Rightarrow> bool" where
  "creatable w name =
     (name \<noteq> [] \<and>
      list_all (\<lambda>k. \<not> is_file (lookup (fs w) (take k (resolve (getcwd w) name))))
        [0..<Suc (length (resolve (getcwd w) name))])"

definition scratch_only :: "world \<Rightarrow> world \<Rightarrow> bool" where
  "scratch_only w w1 =
     (w1 = w\<lparr>fs := fs w1\<rparr> \<and>
      (\<forall>q. is_file (lookup (fs w1) q) = is_file (lookup (fs w) q)) \<and>
      stat w1 ''sources'' = stat w ''sources'')"

definition first_visible_source :: "world \<Rightarrow> string \<Rightarrow> error + string" where
  "first_visible_source w component =
     (case stat w ''sources'' of
        Some (Dir es) \<Rightarrow>
          (case filter (\<lambda>name. \<not> startswith name ''.'' \<and> contains name component) (map fst es) of
             [] \<Rightarrow> Inl IndexError
           | name # _ \<Rightarrow> Inr (join_path ''sources'' name))
      | _ \<Rightarrow> Inl IndexError)"

definition first_named_source :: "world \<Rightarrow> string \<Rightarrow> error + string" where
  "first_named_source w component =
     (case stat w ''sources'' of
        Some (Dir es) \<Rightarrow>
          (case filter (\<lambda>name. contains name component) (map fst es) of
             [] \<Rightarrow> Inl IndexError
           | name # _ \<Rightarrow> Inr (join_path ''sources'' name))
      | _ \<Rightarrow> Inl IndexError)"

definition hidden_world :: world where
  "hidden_world = \<lparr>environ = [(''PATH'', ''/usr/bin'')], objs = (\<lambda>_. []), next_obj = 0,
     getcwd = ''/work'',
     fs = Dir [(''work'', Dir [(''tarballs'', Dir []),
                (''sources'', Dir [(''.gdbinit'', File), (''binutils-2.41'', Dir []),
                                   (''gcc-13.2.0'', Dir []), (''gdb-14.1'', Dir [])])])],
     printed = [], invoked = []\<rparr>"

fun exit_status :: "outcome \<Rightarrow> int option" where
  "exit_status (Spawned p t) = Some (returncode p)"
| "exit_status (Spawn_error e) = None"

definition source_tree :: node where
  "source_tree =
     Dir [(''work'', Dir [(''tarballs'', Dir []),
            (''sources'', Dir [(''binutils-2.41'', Dir []), (''gcc-13.2.0'', Dir []),
                               (''gdb-14.1'', Dir []), (''mingw-w64-v11.0.0'', Dir [])])])]"

definition source_world :: world where
  "source_world =
     \<lparr>environ = [(''HOME'', ''/root''), (''PATH'', ''/usr/bin:/bin'')], objs = (\<lambda>_. []),
      next_obj = 0, getcwd = ''/work'', fs = source_tree, printed = [], invoked = []\<rparr>"

definition failing_make :: externals where
  "failing_make =
     \<lparr>runner = (\<lambda>n st t. Spawned \<lparr>lines = [], rest = [],
                   returncode = (if popen_args st = ''gmake -j16'' then 2 else 0)\<rparr> t),
      net_fetch = (\<lambda>u f t. Inr t), tar_extract = (\<lambda>n p t. Inr t),
      json_load = (\<lambda>p t. Inr [(''mingw_prefix'', ''/opt/mingw''),
                                (''mingw_win_prefix'', ''/opt/win-mingw'')]),
      platform_system = ''Linux'', platform_machine = ''x86_64''\<rparr>"

text \<open>
  A computation that only adds to the record of calls, and the command line that asks for
  the Windows-hosted MinGW variant alone.
\<close>

definition appends :: "'a prog \<Rightarrow> bool" where
  "appends m = (\<forall>w. \<exists>more. invoked (snd (m w)) = invoked w @ more)"

definition only_win_mingw :: args where
  "only_win_mingw =
     \<lparr>opt_build_mingw = False, opt_build_elf = False, opt_build_win_mingw = True,
      opt_build_win_elf = False, opt_pack_mingw = False, opt_pack_elf = False,
      opt_pack_win_mingw = False, opt_pack_win_elf = False, opt_cleanup = False,
      opt_config = ''config.json''\<rparr>"

section \<open>Lemmas\<close>

subsection \<open>Running statements\<close>

lemma bnd_ret [simp]: "bnd (ret x) f = f x"
  by (simp add: bnd_def ret_def)

lemma bnd_raise [simp]: "bnd (raise e) f = raise e"
  by (simp add: bnd_def raise_def)

lemma thn_ret [simp]: "thn (ret ()) k = k"
  by (simp add: thn_def)

lemma bnd_Inr: "m w = (Inr x, w1) \<Longrightarrow> bnd m f w = f x w1"
  by (simp add: bnd_def)

lemma bnd_Inl: "m w = (Inl e, w1) \<Longrightarrow> bnd m f w = (Inl e, w1)"
  by (simp add: bnd_def)

lemma thn_Inr: "m w = (Inr (), w1) \<Longrightarrow> thn m k w = k w1"
  by (simp add: thn_def bnd_def)

lemma thn_Inl: "m w = (Inl e, w1) \<Longrightarrow> thn m k w = (Inl e, w1)"
  by (simp add: thn_def bnd_def)

subsection \<open>The Environment Composer\<close>

text \<open>The composed dictionary, as a value: what \<open>get_build_env\<close> leaves in the new object.\<close>

lemma map_of_update: "map_of (AList.update k v al) k' = (if k' = k then Some v else map_of al k')"
  by (simp add: update_conv')

lemma get_build_env_result:
  "get_build_env prefix mingw_gcc elf_gcc target w =
     (case map_of (environ w) ''PATH'' of
        None \<Rightarrow> (Inl (KeyError ''PATH''),
                 w\<lparr>objs := (objs w)(next_obj w :=
                      AList.update ''TARGET'' target (AList.update ''PREFIX'' prefix (environ w))),
                   next_obj := Suc (next_obj w)\<rparr>)
      | Some p \<Rightarrow> (Inr (Obj (next_obj w)),
                 w\<lparr>objs := (objs w)(next_obj w :=
                      AList.update ''PATH''
                        (abspath (getcwd w) prefix @ ''/bin:'' @
                         (if mingw_gcc = [] then [] else abspath (getcwd w) mingw_gcc @ ''/bin:'') @
                         (if elf_gcc = [] then [] else abspath (getcwd w) elf_gcc @ ''/bin:'') @ p)
                        (AList.update ''TARGET'' target (AList.update ''PREFIX'' prefix (environ w)))),
                   next_obj := Suc (next_obj w)\<rparr>))"
  by (cases "map_of (environ w) ''PATH''")
     (simp_all add: get_build_env_def bnd_def thn_def dict_copy_def setitem_def getitem_def ret_def
        map_of_update)


lemma split_sep_nonempty: "split_sep d s \<noteq> []"
  by (induction s) (auto split: list.splits)

lemma split_sep_entry:
  "d \<notin> set a \<Longrightarrow> split_sep d (a @ d # b) = a # split_sep d b"
  by (induction a) (auto split: list.splits)

text \<open>
  Claim C8. For every input, \<open>get_build_env\<close> leaves the ambient environment object as it
  was, and every dictionary object that existed before the call too; it changes neither
  the file system, nor the working directory, nor the output, nor the recorded calls.
  What it returns is a reference to an object allocated by the call, never the ambient
  environment itself. The call returns whenever the ambient environment defines
  \<^verbatim>\<open>PATH\<close>, and raises \<^verbatim>\<open>KeyError\<close> (still without touching the ambient environment)
  when it does not.
\<close>

theorem get_build_env_frame:
  "environ (snd (get_build_env prefix mingw_gcc elf_gcc target w)) = environ w \<and>
   (\<forall>n < next_obj w. objs (snd (get_build_env prefix mingw_gcc elf_gcc target w)) n = objs w n) \<and>
   fs (snd (get_build_env prefix mingw_gcc elf_gcc target w)) = fs w \<and>
   getcwd (snd (get_build_env prefix mingw_gcc elf_gcc target w)) = getcwd w \<and>
   printed (snd (get_build_env prefix mingw_gcc elf_gcc target w)) = printed w \<and>
   invoked (snd (get_build_env prefix mingw_gcc elf_gcc target w)) = invoked w \<and>
   (case fst (get_build_env prefix mingw_gcc elf_gcc target w) of
      Inr env \<Rightarrow> env = Obj (next_obj w) \<and> env \<noteq> Environ \<and> map_of (environ w) ''PATH'' \<noteq> None
    | Inl e \<Rightarrow> e = KeyError ''PATH'' \<and> map_of (environ w) ''PATH'' = None)"
  by (cases "map_of (environ w) ''PATH''") (simp_all add: get_build_env_result)

theorem get_build_env_frame_witness:
  "environ (snd (get_build_env ''/opt/elf'' [] [] ''x86_64-elf'' (ambient_world\<lparr>next_obj := 1\<rparr>))) =
     [(''HOME'', ''/root''), (''PATH'', ''/usr/bin:/bin'')] \<and>
   objs (snd (get_build_env ''/opt/elf'' [] [] ''x86_64-elf'' (ambient_world\<lparr>next_obj := 1\<rparr>))) 0 = [] \<and>
   fst (get_build_env ''/opt/elf'' [] [] ''x86_64-elf'' (ambient_world\<lparr>next_obj := 1\<rparr>)) = Inr (Obj 1)"
  using get_build_env_frame [of "''/opt/elf''" "[]" "[]" "''x86_64-elf''" "ambient_world\<lparr>next_obj := 1\<rparr>"]
  by (auto simp: ambient_world_def split: sum.splits)

text \<open>
  Claim C9. With both host-compiler arguments empty, and an ambient search path to start
  from, \<open>get_build_env prefix   target\<close> returns an environment whose search
  path is the \<^verbatim>\<open>bin\<close> directory of the prefix (as \<^verbatim>\<open>os.path.abspath\<close> writes it)
  followed by the ambient path: nothing is put in for the empty arguments. Read as a list
  of entries, it is that one entry, which is not empty, followed by the entries of the
  ambient path.
\<close>

theorem get_build_env_no_host_compiler:
  assumes "map_of (environ w) ''PATH'' = Some ambient"
  shows "fst (get_build_env prefix [] [] target w) = Inr (Obj (next_obj w)) \<and>
         map_of (deref (snd (get_build_env prefix [] [] target w)) (Obj (next_obj w))) ''PATH'' =
           Some (abspath (getcwd w) prefix @ ''/bin:'' @ ambient) \<and>
         (CHR '':'' \<notin> set (abspath (getcwd w) prefix) \<longrightarrow>
            split_sep CHR '':'' (abspath (getcwd w) prefix @ ''/bin:'' @ ambient) =
              (abspath (getcwd w) prefix @ ''/bin'') # split_sep CHR '':'' ambient) \<and>
         abspath (getcwd w) prefix @ ''/bin'' \<noteq> []"
  using assms split_sep_entry [of "CHR '':''" "abspath (getcwd w) prefix @ ''/bin''" ambient]
  by (simp add: get_build_env_result map_of_update)

theorem get_build_env_no_host_compiler_witness:
  "fst (get_build_env ''/opt/mingw'' [] [] ''x86_64-w64-mingw32'' ambient_world) = Inr (Obj 0) \<and>
   map_of (deref (snd (get_build_env ''/opt/mingw'' [] [] ''x86_64-w64-mingw32'' ambient_world)) (Obj 0)) ''PATH''
     = Some ''/opt/mingw/bin:/usr/bin:/bin'' \<and>
   split_sep CHR '':'' ''/opt/mingw/bin:/usr/bin:/bin'' = [''/opt/mingw/bin'', ''/usr/bin'', ''/bin'']"
proof -
  have h: "map_of (environ ambient_world) ''PATH'' = Some ''/usr/bin:/bin''"
    by (simp add: ambient_world_def)
  have a: "abspath ''/work'' ''/opt/mingw'' = ''/opt/mingw''"
    by code_simp
  show ?thesis
    using get_build_env_no_host_compiler [OF h, of "''/opt/mingw''" "''x86_64-w64-mingw32''"]
    by (simp add: a ambient_world_def)
qed


lemma split_sep_bin:
  "CHR '':'' \<notin> set a \<Longrightarrow>
   split_sep CHR '':'' (a @ CHR ''/'' # CHR ''b'' # CHR ''i'' # CHR ''n'' # CHR '':'' # b) =
     (a @ ''/bin'') # split_sep CHR '':'' b"
  using split_sep_entry [of "CHR '':''" "a @ ''/bin''" b] by simp

text \<open>
  Claim C3, as amended. With an ambient search path and non-empty host-compiler
  prefixes, the search path composed by \<open>get_build_env prefix mingw_gcc elf_gcc target\<close> is
  the \<^verbatim>\<open>bin\<close> of the base prefix, then the \<^verbatim>\<open>bin\<close> of the MinGW host compiler, then
  the \<^verbatim>\<open>bin\<close> of the ELF host compiler, then the ambient path (each prefix as
  \<^verbatim>\<open>os.path.abspath\<close> writes it). With \<open>[A, B] = [elf_gcc, mingw_gcc]\<close>, the order in
  which the code prepends them, this is \<open>P/bin\<close>, \<open>B/bin\<close>, \<open>A/bin\<close>, ambient; the MinGW
  entry comes before the ELF entry.
\<close>

theorem get_build_env_search_path:
  assumes "map_of (environ w) ''PATH'' = Some ambient" and "mingw_gcc \<noteq> []" and "elf_gcc \<noteq> []"
  shows "fst (get_build_env prefix mingw_gcc elf_gcc target w) = Inr (Obj (next_obj w)) \<and>
         map_of (deref (snd (get_build_env prefix mingw_gcc elf_gcc target w)) (Obj (next_obj w)))
            ''PATH'' =
           Some (abspath (getcwd w) prefix @ ''/bin:'' @ abspath (getcwd w) mingw_gcc @ ''/bin:'' @
                 abspath (getcwd w) elf_gcc @ ''/bin:'' @ ambient) \<and>
         (CHR '':'' \<notin> set (abspath (getcwd w) prefix) \<and>
          CHR '':'' \<notin> set (abspath (getcwd w) mingw_gcc) \<and>
          CHR '':'' \<notin> set (abspath (getcwd w) elf_gcc) \<longrightarrow>
            split_sep CHR '':''
              (abspath (getcwd w) prefix @ ''/bin:'' @ abspath (getcwd w) mingw_gcc @ ''/bin:'' @
               abspath (getcwd w) elf_gcc @ ''/bin:'' @ ambient) =
              (abspath (getcwd w) prefix @ ''/bin'') # (abspath (getcwd w) mingw_gcc @ ''/bin'') #
              (abspath (getcwd w) elf_gcc @ ''/bin'') # split_sep CHR '':'' ambient)"
  using assms by (simp add: get_build_env_result map_of_update split_sep_bin)

theorem get_build_env_search_path_witness:
  "fst (get_build_env ''/opt/win-elf'' ''/opt/mingw'' ''/opt/elf'' ''x86_64-elf'' ambient_world) = Inr (Obj 0) \<and>
   map_of (deref (snd (get_build_env ''/opt/win-elf'' ''/opt/mingw'' ''/opt/elf'' ''x86_64-elf'' ambient_world))
             (Obj 0)) ''PATH'' =
     Some ''/opt/win-elf/bin:/opt/mingw/bin:/opt/elf/bin:/usr/bin:/bin'' \<and>
   split_sep CHR '':'' ''/opt/win-elf/bin:/opt/mingw/bin:/opt/elf/bin:/usr/bin:/bin'' =
     [''/opt/win-elf/bin'', ''/opt/mingw/bin'', ''/opt/elf/bin'', ''/usr/bin'', ''/bin'']"
proof -
  have h: "map_of (environ ambient_world) ''PATH'' = Some ''/usr/bin:/bin''"
    by (simp add: ambient_world_def)
  have a: "abspath ''/work'' ''/opt/win-elf'' = ''/opt/win-elf''"
          "abspath ''/work'' ''/opt/mingw'' = ''/opt/mingw''"
          "abspath ''/work'' ''/opt/elf'' = ''/opt/elf''"
    by code_simp+
  show ?thesis
    using get_build_env_search_path [OF h, of "''/opt/mingw''" "''/opt/elf''" "''/opt/win-elf''"
        "''x86_64-elf''"]
    by (simp add: a ambient_world_def)
qed

text \<open>
  Claim C3 as stated fails in its last part: with both host compilers supplied, the ELF
  entry does not come before the MinGW entry, it comes after it.
\<close>

theorem get_build_env_elf_before_mingw_counterexample:
  "map_of (deref (snd (get_build_env ''/opt/win-elf'' ''/opt/mingw'' ''/opt/elf'' ''x86_64-elf'' ambient_world))
             (Obj 0)) ''PATH'' =
     Some ''/opt/win-elf/bin:/opt/mingw/bin:/opt/elf/bin:/usr/bin:/bin'' \<and>
   \<not> precedes ''/opt/elf/bin'' ''/opt/mingw/bin''
       (split_sep CHR '':'' ''/opt/win-elf/bin:/opt/mingw/bin:/opt/elf/bin:/usr/bin:/bin'') \<and>
   precedes ''/opt/mingw/bin'' ''/opt/elf/bin''
       (split_sep CHR '':'' ''/opt/win-elf/bin:/opt/mingw/bin:/opt/elf/bin:/usr/bin:/bin'')"
proof -
  have a: "abspath ''/work'' ''/opt/win-elf'' = ''/opt/win-elf''"
          "abspath ''/work'' ''/opt/mingw'' = ''/opt/mingw''"
          "abspath ''/work'' ''/opt/elf'' = ''/opt/elf''"
    by code_simp+
  show ?thesis
    by (simp add: get_build_env_result map_of_update a ambient_world_def)
qed



subsection \<open>Strings and paths\<close>

lemma startswith_iff: "startswith s t \<longleftrightarrow> (\<exists>r. s = t @ r)"
  by (induction s t rule: startswith.induct) auto

lemma endswith_iff: "endswith s t \<longleftrightarrow> (\<exists>r. s = r @ t)"
proof
  assume "endswith s t"
  then obtain r where "rev s = rev t @ r"
    by (auto simp: endswith_def startswith_iff)
  then have "s = rev r @ t"
    by (metis rev_append rev_rev_ident)
  then show "\<exists>r. s = r @ t" by blast
next
  assume "\<exists>r. s = r @ t"
  then show "endswith s t"
    by (auto simp: endswith_def startswith_iff)
qed

lemma split_sep_append: "split_sep d (a @ d # b) = split_sep d a @ split_sep d b"
  by (induction a) (auto split: list.splits simp: split_sep_nonempty)

lemma norm_step_empty [simp]: "norm_step b acc [] = acc"
  by (simp add: norm_step_def)

lemma resolve_rel:
  assumes "\<not> isabs p"
  shows "resolve wd p = foldl (norm_step True) (resolve wd []) (split_sep CHR ''/'' p)"
proof -
  have nabs: "\<not> startswith p ''/''" "\<not> startswith [] ''/''"
    using assms by (simp_all add: isabs_def)
  consider (empty) "wd = []" | (slash) "wd \<noteq> []" "endswith wd ''/''"
    | (plain) "wd \<noteq> []" "\<not> endswith wd ''/''"
    by blast
  then show ?thesis
  proof cases
    case empty
    then show ?thesis
      using nabs by (simp add: resolve_def isabs_def join_path_def)
  next
    case slash
    then obtain u where u: "wd = u @ ''/''"
      by (auto simp: endswith_iff)
    have "join_path wd p = u @ CHR ''/'' # p" "join_path wd [] = u @ CHR ''/'' # []"
      using slash nabs u by (simp_all add: join_path_def)
    then show ?thesis
      using nabs by (simp add: resolve_def isabs_def split_sep_append)
  next
    case plain
    have "join_path wd p = wd @ CHR ''/'' # p" "join_path wd [] = wd @ CHR ''/'' # []"
      using plain nabs by (simp_all add: join_path_def)
    then show ?thesis
      using nabs by (simp add: resolve_def isabs_def split_sep_append)
  qed
qed

lemma resolve_build: "resolve wd ''build'' = resolve wd [] @ [''build'']"
  using resolve_rel [of "''build''" wd] by (simp add: isabs_def norm_step_def)

lemma resolve_sources: "resolve wd ''sources'' = resolve wd [] @ [''sources'']"
  using resolve_rel [of "''sources''" wd] by (simp add: isabs_def norm_step_def)

lemma resolve_tarballs: "resolve wd ''tarballs'' = resolve wd [] @ [''tarballs'']"
  using resolve_rel [of "''tarballs''" wd] by (simp add: isabs_def norm_step_def)

subsection \<open>Removing a tree\<close>

lemma map_of_delete: "map_of (AList.delete k al) k' = (if k' = k then None else map_of al k')"
  by (simp add: delete_conv')

lemma lookup_remove_entry_self: "p \<noteq> [] \<Longrightarrow> lookup (remove_entry p t) p = None"
  by (induction p t rule: remove_entry.induct)
     (auto simp: map_of_delete map_of_update split: option.splits)

lemma lookup_remove_entry_None:
  "lookup t q = None \<Longrightarrow> lookup (remove_entry p t) q = None"
proof (induction p t arbitrary: q rule: remove_entry.induct)
  case (4 c es)
  then show ?case
    by (cases q) (auto simp: map_of_delete split: option.splits)
next
  case (5 c d ds es)
  then show ?case
    by (cases q) (auto simp: map_of_update split: option.splits)
qed (auto elim: lookup.elims)

lemma lookup_remove_entry_not_dir:
  "\<not> is_dir (lookup t q) \<Longrightarrow> \<not> is_dir (lookup (remove_entry p t) q)"
proof (induction p t arbitrary: q rule: remove_entry.induct)
  case (2 es)
  then show ?case by (cases q) auto
next
  case (4 c es)
  then show ?case
    by (cases q) (auto simp: map_of_delete split: option.splits)
next
  case (5 c d ds es)
  then show ?case
    by (cases q) (auto simp: map_of_update split: option.splits)
qed auto


lemma lookup_remove_entry_File:
  "lookup (remove_entry p t) q = Some File \<Longrightarrow> lookup t q = Some File"
proof (induction p t arbitrary: q rule: remove_entry.induct)
  case (2 es)
  then show ?case by (cases q) auto
next
  case (4 c es)
  then show ?case
    by (cases q) (auto simp: map_of_delete split: option.splits if_splits)
next
  case (5 c d ds es)
  then show ?case
    by (cases q) (auto simp: map_of_update split: option.splits if_splits)
qed auto

lemma rmtree_noop: "\<not> is_dir (stat w path) \<Longrightarrow> rmtree path True w = (Inr (), w)"
  by (cases "stat w path" rule: is_dir.cases) (simp_all add: rmtree_def)

lemma rmtree_ignore:
  "rmtree path True w =
     (Inr (), if is_dir (stat w path)
              then w\<lparr>fs := remove_entry (resolve (getcwd w) path) (fs w)\<rparr> else w)"
  by (cases "stat w path" rule: is_dir.cases) (simp_all add: rmtree_def)

lemma rmtree_getcwd [simp]: "getcwd (snd (rmtree path True w)) = getcwd w"
  by (simp add: rmtree_ignore)

lemma rmtree_gone:
  assumes "path \<noteq> []" and "resolve (getcwd w) path \<noteq> []"
  shows "\<not> is_dir (stat (snd (rmtree path True w)) path)"
  using assms by (simp add: rmtree_ignore stat_def lookup_remove_entry_self)

lemma rmtree_keeps_not_dir:
  "\<not> is_dir (stat w q) \<Longrightarrow> \<not> is_dir (stat (snd (rmtree path True w)) q)"
  by (auto simp: rmtree_ignore stat_def lookup_remove_entry_not_dir)

lemma rmtree_keeps_not_File:
  "stat w q \<noteq> Some File \<Longrightarrow> stat (snd (rmtree path True w)) q \<noteq> Some File"
  by (auto simp: rmtree_ignore stat_def dest: lookup_remove_entry_File split: if_splits)

lemma rmtree_keeps_None:
  "stat w q = None \<Longrightarrow> stat (snd (rmtree path True w)) q = None"
  by (auto simp: rmtree_ignore stat_def lookup_remove_entry_None split: if_splits)

lemma rmtree_None:
  assumes "path \<noteq> []" and "resolve (getcwd w) path \<noteq> []" and "stat w path \<noteq> Some File"
  shows "stat (snd (rmtree path True w)) path = None"
proof (cases "stat w path" rule: is_dir.cases)
  case (1 es)
  then show ?thesis
    using assms by (simp add: rmtree_ignore stat_def lookup_remove_entry_self)
next
  case 2
  then show ?thesis using assms by simp
next
  case 3
  then show ?thesis by (simp add: rmtree_ignore)
qed

lemma rmtree_fst [simp]: "fst (rmtree path True w) = Inr ()"
  by (simp add: rmtree_ignore)

lemma cleanup_eq:
  "cleanup w =
     (Inr (), snd (rmtree ''tarballs'' True (snd (rmtree ''sources'' True
                (snd (rmtree ''build'' True w))))))"
  by (simp add: cleanup_def thn_def bnd_def rmtree_ignore)



subsection \<open>The Archiver\<close>

lemma lookup_Dir:
  "lookup (Dir es) q =
     (case q of [] \<Rightarrow> Some (Dir es)
      | c # cs \<Rightarrow> (case map_of es c of None \<Rightarrow> None | Some n \<Rightarrow> lookup n cs))"
  by (cases q) auto

lemma lookup_File: "lookup File q = (case q of [] \<Rightarrow> Some File | c # cs \<Rightarrow> None)"
  by (cases q) auto

lemma create_is_file: "create p t = Inr t' \<Longrightarrow> lookup t' p = Some File"
  by (induction p t arbitrary: t' rule: create.induct)
     (auto simp: map_of_update split: option.splits sum.splits if_splits)

lemma create_keeps_dirs:
  "create p t = Inr t' \<Longrightarrow> is_dir (lookup t' q) = is_dir (lookup t q)"
proof (induction p t arbitrary: t' q rule: create.induct)
  case (4 c cs es)
  then show ?case
    by (cases q)
       (auto simp: map_of_update lookup_File split: option.splits sum.splits if_splits list.splits)
qed auto

lemma create_keeps_files:
  "create p t = Inr t' \<Longrightarrow> q \<noteq> p \<Longrightarrow> is_file (lookup t' q) = is_file (lookup t q)"
proof (induction p t arbitrary: t' q rule: create.induct)
  case (4 c cs es)
  then show ?case
    by (cases q)
       (auto simp: map_of_update lookup_File split: option.splits sum.splits if_splits list.splits)
qed auto

lemma add_each_skip [simp]: "add_each prefix filenames = ret ()"
  by (induction filenames) (simp_all add: tar_add_def)

lemma pack_compiler_fs:
  "fs (snd (pack_compiler archive_prefix prefix arch platform binfmt w)) =
   fs (snd (open_w (join_path archive_prefix
                      (arch @ ''-'' @ platform @ ''-'' @ binfmt @ ''-gcc.tar.xz'')) w))"
  by (auto simp: pack_compiler_def thn_def bnd_def listdir_def open_w_def ret_def
           split: sum.splits option.splits node.splits prod.splits)

lemma split_sep_plain: "d \<notin> set s \<Longrightarrow> split_sep d s = [s]"
  by (induction s) auto

lemma norm_step_plain:
  "b \<noteq> [] \<Longrightarrow> b \<noteq> ''.'' \<Longrightarrow> b \<noteq> ''..'' \<Longrightarrow> norm_step i acc b = acc @ [b]"
  by (simp add: norm_step_def)

lemma resolve_expand:
  "resolve wd p =
     foldl (norm_step True) (if isabs p then [] else resolve wd []) (split_sep CHR ''/'' p)"
  using resolve_rel [of p wd] by (simp add: resolve_def)

lemma isabs_append: "a \<noteq> [] \<Longrightarrow> isabs (a @ b) = isabs a"
  by (cases a) (simp_all add: isabs_def)

lemma resolve_join_plain:
  assumes "CHR ''/'' \<notin> set b" and "b \<noteq> []" and "b \<noteq> ''.''" and "b \<noteq> ''..''"
  shows "resolve wd (join_path a b) = resolve wd a @ [b]"
proof -
  have nb: "\<not> startswith b ''/''"
    using assms(1) by (auto simp: startswith_iff)
  have sb: "split_sep CHR ''/'' b = [b]"
    using assms(1) by (rule split_sep_plain)
  have st: "\<And>acc. norm_step True acc b = acc @ [b]"
    using assms(2-4) by (rule norm_step_plain)
  show ?thesis
  proof (cases "a = []")
    case True
    then show ?thesis
      using nb resolve_rel [of b wd] by (simp add: join_path_def isabs_def sb st)
  next
    case False
    show ?thesis
    proof (cases "endswith a ''/''")
      case True
      then obtain u where u: "a = u @ ''/''"
        by (auto simp: endswith_iff)
      have j: "join_path a b = u @ CHR ''/'' # b"
        using True nb u by (simp add: join_path_def)
      have ia: "isabs (u @ CHR ''/'' # b) = isabs a"
        using isabs_append [of a b] False u by simp
      have "resolve wd (join_path a b) =
              foldl (norm_step True) (if isabs a then [] else resolve wd [])
                (split_sep CHR ''/'' u) @ [b]"
        unfolding j by (subst resolve_expand) (simp add: ia split_sep_append sb st)
      moreover have "resolve wd a =
              foldl (norm_step True) (if isabs a then [] else resolve wd [])
                (split_sep CHR ''/'' u)"
        by (subst resolve_expand) (simp add: u split_sep_append)
      ultimately show ?thesis by simp
    next
      case False
      have j: "join_path a b = a @ CHR ''/'' # b"
        using False \<open>a \<noteq> []\<close> nb by (simp add: join_path_def)
      have ia: "isabs (a @ CHR ''/'' # b) = isabs a"
        using isabs_append [of a "CHR ''/'' # b"] \<open>a \<noteq> []\<close> by simp
      have "resolve wd (join_path a b) =
              foldl (norm_step True) (if isabs a then [] else resolve wd [])
                (split_sep CHR ''/'' a) @ [b]"
        unfolding j by (subst resolve_expand) (simp add: ia split_sep_append sb st)
      moreover have "resolve wd a =
              foldl (norm_step True) (if isabs a then [] else resolve wd [])
                (split_sep CHR ''/'' a)"
        by (subst resolve_expand) simp
      ultimately show ?thesis by simp
    qed
  qed
qed

lemma archive_name_plain:
  assumes "CHR ''/'' \<notin> set arch" and "CHR ''/'' \<notin> set platform" and "CHR ''/'' \<notin> set binfmt"
  shows "CHR ''/'' \<notin> set (arch @ ''-'' @ platform @ ''-'' @ binfmt @ ''-gcc.tar.xz'')"
    and "arch @ ''-'' @ platform @ ''-'' @ binfmt @ ''-gcc.tar.xz'' \<noteq> []"
    and "arch @ ''-'' @ platform @ ''-'' @ binfmt @ ''-gcc.tar.xz'' \<noteq> ''.''"
    and "arch @ ''-'' @ platform @ ''-'' @ binfmt @ ''-gcc.tar.xz'' \<noteq> ''..''"
proof -
  let ?n = "arch @ ''-'' @ platform @ ''-'' @ binfmt @ ''-gcc.tar.xz''"
  show "CHR ''/'' \<notin> set ?n" using assms by simp
  show "?n \<noteq> []" by simp
  have "CHR ''-'' \<in> set ?n" by simp
  moreover have "CHR ''-'' \<notin> set ''.''" "CHR ''-'' \<notin> set ''..''" by simp_all
  ultimately show "?n \<noteq> ''.''" "?n \<noteq> ''..''" by metis+
qed



subsection \<open>Running the statements of a Recipe\<close>

lemma print_lines_eq: "print_lines ls w = (Inr (), w\<lparr>printed := printed w @ ls\<rparr>)"
  by (induction ls arbitrary: w) (simp_all add: ret_def thn_def bnd_def print_end_def)

lemma get_subprocess_output_eq:
  "get_subprocess_output p w = (Inr (), w\<lparr>printed := printed w @ lines p @ [rest p]\<rparr>)"
  by (simp add: get_subprocess_output_def thn_def bnd_def print_lines_eq print_end_def)

lemma exec_stmt_with_status: "exec_stmt (with_status f X) s = exec_stmt X s"
proof (cases s)
  case (Run a e c)
  show ?thesis
    unfolding Run
    by (rule ext)
       (simp add: bnd_def popen_def with_status_def get_subprocess_output_eq Let_def
          split: outcome.splits)
next
  case (Spawn a)
  show ?thesis
    unfolding Spawn
    by (rule ext) (simp add: bnd_def popen_def with_status_def ret_def Let_def split: outcome.splits)
next
  case (Spawn_wait a)
  show ?thesis
    unfolding Spawn_wait
    by (rule ext)
       (simp add: bnd_def popen_def with_status_def ret_def wait_def Let_def split: outcome.splits)
qed simp

lemma exec_with_status: "exec (with_status f X) ss = exec X ss"
  by (induction ss) (simp_all add: exec_stmt_with_status)

lemma with_status_fields [simp]:
  "net_fetch (with_status f X) = net_fetch X"
  "tar_extract (with_status f X) = tar_extract X"
  "json_load (with_status f X) = json_load X"
  "platform_system (with_status f X) = platform_system X"
  "platform_machine (with_status f X) = platform_machine X"
  by (simp_all add: with_status_def)

lemma build_elf_toolchain_with_status:
  "build_elf_toolchain (with_status f X) = build_elf_toolchain X"
  by (rule ext) (simp add: build_elf_toolchain_def exec_with_status)

lemma build_mingw_toolchain_with_status:
  "build_mingw_toolchain (with_status f X) = build_mingw_toolchain X"
  by (rule ext) (simp add: build_mingw_toolchain_def exec_with_status)

lemma build_win_mingw_with_status:
  "build_win_mingw (with_status f X) = build_win_mingw X"
  by (rule ext)+ (simp add: build_win_mingw_def exec_with_status)

lemma build_win_elf_with_status:
  "build_win_elf (with_status f X) = build_win_elf X"
  by (rule ext)+ (simp add: build_win_elf_def exec_with_status)

lemma extract_each_with_status: "extract_each (with_status f X) ns = extract_each X ns"
  by (induction ns) (simp_all add: extractall_def)

lemma download_sources_with_status:
  "download_sources (with_status f X) = download_sources X"
  by (rule ext)+ (simp add: download_sources_def urlretrieve_def)

lemma extract_sources_with_status: "extract_sources (with_status f X) = extract_sources X"
  by (simp add: extract_sources_def extract_each_with_status)

lemma main_with_status: "main (with_status f X) a = main X a"
  by (simp add: main_def build_elf_toolchain_with_status build_mingw_toolchain_with_status
      build_win_mingw_with_status build_win_elf_with_status load_config_def
      download_sources_with_status extract_sources_with_status cong: if_cong)

lemma stages_of_cong:
  "environ w1 = environ w \<Longrightarrow> objs w1 = objs w \<Longrightarrow> stages_of w1 ss = stages_of w ss"
proof (induction ss rule: stages_of.induct[of _ w])
  case (3 w a e c ss)
  then show ?case by (cases e) simp_all
qed simp_all

lemma exec_stmt_frame:
  "environ (snd (exec_stmt X s w)) = environ w \<and> objs (snd (exec_stmt X s w)) = objs w \<and>
   next_obj (snd (exec_stmt X s w)) = next_obj w \<and> getcwd (snd (exec_stmt X s w)) = getcwd w"
  by (cases s)
     (auto simp: print_def bnd_def popen_def get_subprocess_output_eq ret_def wait_def Let_def
        split: outcome.splits)

lemma exec_stmt_invoked:
  "invoked (snd (exec_stmt X s w)) = invoked w @ stages_of w [s]"
  by (cases s)
     (auto simp: print_def bnd_def popen_def get_subprocess_output_eq ret_def wait_def Let_def
        split: outcome.splits)

lemma exec_frame:
  "environ (snd (exec X ss w)) = environ w \<and> objs (snd (exec X ss w)) = objs w \<and>
   next_obj (snd (exec X ss w)) = next_obj w \<and> getcwd (snd (exec X ss w)) = getcwd w"
proof (induction ss arbitrary: w)
  case Nil
  show ?case by (simp add: ret_def)
next
  case (Cons s ss)
  obtain r w1 where s: "exec_stmt X s w = (r, w1)"
    by (cases "exec_stmt X s w")
  have f: "environ w1 = environ w \<and> objs w1 = objs w \<and> next_obj w1 = next_obj w \<and>
           getcwd w1 = getcwd w"
    using exec_stmt_frame [of X s w] s by simp
  show ?case
  proof (cases r)
    case (Inl e)
    then show ?thesis using s f by (simp add: thn_def bnd_def)
  next
    case (Inr u)
    then have "exec X (s # ss) w = exec X ss w1"
      using s by (simp add: thn_def bnd_def)
    then show ?thesis using Cons [of w1] f by simp
  qed
qed

lemma stages_of_Cons: "stages_of w (s # ss) = stages_of w [s] @ stages_of w ss"
  by (cases s) simp_all

lemma length_stages_of_single: "length (stages_of w [s]) \<le> 1"
  by (cases s) simp_all

lemma exec_invoked_prefix:
  "\<exists>k. (stages_of w ss \<noteq> [] \<longrightarrow> 0 < k) \<and>
       invoked (snd (exec X ss w)) = invoked w @ take k (stages_of w ss)"
proof (induction ss arbitrary: w)
  case Nil
  show ?case by (simp add: ret_def)
next
  case (Cons s ss)
  obtain r w1 where s: "exec_stmt X s w = (r, w1)"
    by (cases "exec_stmt X s w")
  have i: "invoked w1 = invoked w @ stages_of w [s]"
    using exec_stmt_invoked [of X s w] s by simp
  have c: "stages_of w1 ss = stages_of w ss"
    using exec_stmt_frame [of X s w] s by (intro stages_of_cong) simp_all
  let ?n = "length (stages_of w [s])"
  show ?case
  proof (cases r)
    case (Inl e)
    then have "invoked (snd (exec X (s # ss) w)) = invoked w @ stages_of w [s]"
      using s i by (simp add: thn_def bnd_def)
    moreover have "stages_of w [s] = take ?n (stages_of w (s # ss))"
      by (subst stages_of_Cons) simp
    moreover have "0 < ?n" if "stages_of w [s] \<noteq> []"
      using that by simp
    moreover have "stages_of w [s] \<noteq> []" if "stages_of w (s # ss) \<noteq> []"
    proof (rule ccontr)
      assume "\<not> stages_of w [s] \<noteq> []"
      then have "exec_stmt X s w = (Inr (), w1) \<or> (\<exists>x. s = Print x)"
        by (cases s) simp_all
      then show False
        using s Inl by (auto simp: print_def)
    qed
    ultimately show ?thesis by metis
  next
    case (Inr u)
    then have e: "exec X (s # ss) w = exec X ss w1"
      using s by (simp add: thn_def bnd_def)
    obtain k where k: "stages_of w1 ss \<noteq> [] \<longrightarrow> 0 < k"
        and "invoked (snd (exec X ss w1)) = invoked w1 @ take k (stages_of w1 ss)"
      using Cons [of w1] by blast
    then have "invoked (snd (exec X (s # ss) w)) =
                 invoked w @ take (?n + k) (stages_of w (s # ss))"
      using e i c by (subst stages_of_Cons) simp
    moreover have "0 < ?n + k" if "stages_of w (s # ss) \<noteq> []"
      using that k c by (subst (asm) stages_of_Cons) (cases "stages_of w [s]"; simp)
    ultimately show ?thesis by blast
  qed
qed

lemma exec_invoked_all:
  "fst (exec X ss w) = Inr () \<Longrightarrow> invoked (snd (exec X ss w)) = invoked w @ stages_of w ss"
proof (induction ss arbitrary: w)
  case Nil
  show ?case by (simp add: ret_def)
next
  case (Cons s ss)
  obtain r w1 where s: "exec_stmt X s w = (r, w1)"
    by (cases "exec_stmt X s w")
  have i: "invoked w1 = invoked w @ stages_of w [s]"
    using exec_stmt_invoked [of X s w] s by simp
  have c: "stages_of w1 ss = stages_of w ss"
    using exec_stmt_frame [of X s w] s by (intro stages_of_cong) simp_all
  show ?case
  proof (cases r)
    case (Inl e)
    then show ?thesis using s Cons.prems by (simp add: thn_def bnd_def)
  next
    case (Inr u)
    then have e: "exec X (s # ss) w = exec X ss w1"
      using s by (simp add: thn_def bnd_def)
    then show ?thesis
      using Cons.IH [of w1] Cons.prems i c by (subst stages_of_Cons) simp
  qed
qed

lemma exec_stmt_spawning:
  assumes "\<And>n st t. \<exists>p t'. runner X n st t = Spawned p t'"
  shows "fst (exec_stmt X s w) = Inr ()"
proof -
  have "runner X (length (invoked w)) st (fs w) \<noteq> Spawn_error e" for st e
    using assms [of "length (invoked w)" st "fs w"] by auto
  then show ?thesis
    by (cases s)
       (auto simp: print_def bnd_def popen_def get_subprocess_output_eq ret_def wait_def Let_def
          split: outcome.splits)
qed

lemma exec_spawning:
  assumes "\<And>n st t. \<exists>p t'. runner X n st t = Spawned p t'"
  shows "fst (exec X ss w) = Inr ()"
proof (induction ss arbitrary: w)
  case Nil
  show ?case by (simp add: ret_def)
next
  case (Cons s ss)
  obtain r w1 where s: "exec_stmt X s w = (r, w1)"
    by (cases "exec_stmt X s w")
  then have "r = Inr ()"
    using exec_stmt_spawning [OF assms, of s w] by simp
  then show ?case
    using s Cons [of w1] by (simp add: thn_def bnd_def)
qed

subsection \<open>Creating directories\<close>

lemma mkdirs_succeeds:
  "(\<And>k. k \<le> length p \<Longrightarrow> \<not> is_file (lookup t (take k p))) \<Longrightarrow> \<exists>t'. mkdirs p t = Inr t'"
proof (induction p t rule: mkdirs.induct)
  case (1 es)
  show ?case by simp
next
  case 2
  from 2 [of 0] show ?case by simp
next
  case (3 c cs)
  from 3 [of 0] show ?case by simp
next
  case (4 c cs es)
  let ?n0 = "case map_of es c of None \<Rightarrow> Dir [] | Some n \<Rightarrow> n"
  have "\<not> is_file (lookup ?n0 (take k cs))" if "k \<le> length cs" for k
  proof (cases "map_of es c")
    case None
    then show ?thesis by (auto simp: lookup_Dir split: list.splits)
  next
    case (Some n)
    then show ?thesis
      using "4.prems" [of "Suc k"] that by simp
  qed
  then obtain t' where "mkdirs cs ?n0 = Inr t'"
    using "4.IH" by blast
  then show ?case by simp
qed

lemma mkdirs_keeps_files:
  "mkdirs p t = Inr t' \<Longrightarrow> is_file (lookup t' q) = is_file (lookup t q)"
proof (induction p t arbitrary: t' q rule: mkdirs.induct)
  case (4 c cs es)
  then show ?case
    by (cases q)
       (auto simp: map_of_update lookup_Dir split: option.splits sum.splits if_splits list.splits)
qed auto

lemma mkdirs_frame:
  "mkdirs (A @ b # r) t = Inr t' \<Longrightarrow> s \<noteq> b \<Longrightarrow> lookup t' (A @ s # r') = lookup t (A @ s # r')"
proof (induction A arbitrary: t t')
  case Nil
  then show ?case
    by (cases t) (auto simp: map_of_update split: sum.splits)
next
  case (Cons a A)
  show ?case
  proof (cases t)
    case File
    then show ?thesis using Cons.prems by simp
  next
    case (Dir es)
    let ?n0 = "case map_of es a of None \<Rightarrow> Dir [] | Some n \<Rightarrow> n"
    obtain n' where n': "mkdirs (A @ b # r) ?n0 = Inr n'" and t': "t' = Dir (AList.update a n' es)"
      using Cons.prems(1) Dir by (auto split: sum.splits)
    have "lookup n' (A @ s # r') = lookup ?n0 (A @ s # r')"
      using Cons.IH [OF n' Cons.prems(2)] .
    moreover have "lookup (Dir []) (A @ s # r') = None"
      by (cases A) simp_all
    ultimately show ?thesis
      using Dir t' by (simp add: map_of_update split: option.splits)
  qed
qed

lemma creatable_iff:
  "creatable w name \<longleftrightarrow>
     name \<noteq> [] \<and>
     (\<forall>k \<le> length (resolve (getcwd w) name).
        \<not> is_file (lookup (fs w) (take k (resolve (getcwd w) name))))"
  by (auto simp: creatable_def list_all_iff less_Suc_eq_le)

lemma creatable_cong:
  "getcwd w1 = getcwd w \<Longrightarrow> (\<And>q. is_file (lookup (fs w1) q) = is_file (lookup (fs w) q)) \<Longrightarrow>
   creatable w1 name = creatable w name"
  by (simp add: creatable_iff)

lemma makedirs_creatable:
  assumes "creatable w name"
  shows "\<exists>t. makedirs name w = (Inr (), w\<lparr>fs := t\<rparr>) \<and>
             mkdirs (resolve (getcwd w) name) (fs w) = Inr t"
proof -
  obtain t where "mkdirs (resolve (getcwd w) name) (fs w) = Inr t"
    using assms mkdirs_succeeds [of "resolve (getcwd w) name" "fs w"]
    by (auto simp: creatable_iff)
  then show ?thesis
    using assms by (simp add: makedirs_def creatable_iff)
qed

lemma resolve_build_sub:
  assumes "CHR ''/'' \<notin> set d" and "d \<noteq> []" and "d \<noteq> ''.''" and "d \<noteq> ''..''"
  shows "resolve wd (''build/'' @ d) = resolve wd [] @ [''build'', d]"
proof -
  have "\<not> startswith d ''/''"
    using assms(1) by (auto simp: startswith_iff)
  then have "join_path ''build'' d = ''build/'' @ d"
    by (simp add: join_path_def endswith_def)
  then show ?thesis
    using resolve_join_plain [OF assms, of wd "''build''"] by (simp add: resolve_build)
qed

lemma scratch_only_refl: "scratch_only w w"
  by (simp add: scratch_only_def)

lemma scratch_only_fields:
  assumes "scratch_only w w1"
  shows "environ w1 = environ w" "objs w1 = objs w" "next_obj w1 = next_obj w"
    "getcwd w1 = getcwd w" "printed w1 = printed w" "invoked w1 = invoked w"
proof -
  have e: "w1 = w\<lparr>fs := fs w1\<rparr>"
    using assms by (simp add: scratch_only_def)
  show "environ w1 = environ w" by (subst e) simp
  show "objs w1 = objs w" by (subst e) simp
  show "next_obj w1 = next_obj w" by (subst e) simp
  show "getcwd w1 = getcwd w" by (subst e) simp
  show "printed w1 = printed w" by (subst e) simp
  show "invoked w1 = invoked w" by (subst e) simp
qed

lemma thn_makedirs_scratch:
  assumes s: "scratch_only w w1"
    and c: "creatable w (''build/'' @ d)"
    and d: "CHR ''/'' \<notin> set d" "d \<noteq> []" "d \<noteq> ''.''" "d \<noteq> ''..''"
  shows "\<exists>w2. scratch_only w w2 \<and> (\<forall>K. thn (makedirs (''build/'' @ d)) K w1 = K w2)"
proof -
  have e: "w1 = w\<lparr>fs := fs w1\<rparr>"
    and f: "\<And>q. is_file (lookup (fs w1) q) = is_file (lookup (fs w) q)"
    and st: "stat w1 ''sources'' = stat w ''sources''"
    using s by (simp_all add: scratch_only_def)
  have g: "getcwd w1 = getcwd w"
    using s by (rule scratch_only_fields)
  have "creatable w1 (''build/'' @ d)"
    using c creatable_cong [OF g f] by simp
  then obtain t where m: "makedirs (''build/'' @ d) w1 = (Inr (), w1\<lparr>fs := t\<rparr>)"
    and t: "mkdirs (resolve (getcwd w1) (''build/'' @ d)) (fs w1) = Inr t"
    using makedirs_creatable by blast
  have r: "resolve (getcwd w1) (''build/'' @ d) = resolve (getcwd w) [] @ ''build'' # [d]"
    using resolve_build_sub [OF d] g by simp
  have "lookup t (resolve (getcwd w) [] @ ''sources'' # []) =
        lookup (fs w1) (resolve (getcwd w) [] @ ''sources'' # [])"
    using t unfolding r by (rule mkdirs_frame) simp
  then have st2: "stat (w1\<lparr>fs := t\<rparr>) ''sources'' = stat w ''sources''"
    using st g by (simp add: stat_def resolve_sources)
  have f2: "is_file (lookup t q) = is_file (lookup (fs w) q)" for q
    using mkdirs_keeps_files [OF t] f by simp
  have e2: "w1\<lparr>fs := t\<rparr> = w\<lparr>fs := t\<rparr>"
    by (subst e) simp
  have "scratch_only w (w1\<lparr>fs := t\<rparr>)"
    using st2 f2 e2 by (simp add: scratch_only_def)
  moreover have "thn (makedirs (''build/'' @ d)) K w1 = K (w1\<lparr>fs := t\<rparr>)" for K
    using m by (rule thn_Inr)
  ultimately show ?thesis by blast
qed

lemma glob_world [simp]: "snd (glob pathname w) = w"
  by (simp add: glob_def split: prod.splits)

lemma glob0_world [simp]: "snd (glob0 pathname w) = w"
  by (cases "glob pathname w") (auto simp: glob0_def bnd_def raise_def ret_def split: list.splits sum.splits dest: arg_cong [where f = snd])

lemma glob0_cases:
  "fst (glob0 pathname w) = Inl IndexError \<or> (\<exists>x. fst (glob0 pathname w) = Inr x)"
  by (auto simp: glob0_def glob_def bnd_def raise_def ret_def split: list.splits prod.splits)

lemma glob0_scratch:
  assumes "scratch_only w w1" and "fst (path_split pathname) = ''sources''"
  shows "glob0 pathname w1 = (fst (glob0 pathname w), w1)"
proof -
  have "stat w1 ''sources'' = stat w ''sources''"
    using assms(1) by (simp add: scratch_only_def)
  then have "fst (glob0 pathname w1) = fst (glob0 pathname w)"
    using assms(2)
    by (cases "path_split pathname")
       (simp add: glob0_def glob_def bnd_def raise_def ret_def split: list.splits)
  then show ?thesis
    by (simp add: prod_eq_iff)
qed

lemma bnd_glob0_scratch:
  assumes "scratch_only w w1" and "fst (path_split pathname) = ''sources''"
  shows "bnd (glob0 pathname) K w1 =
           (case fst (glob0 pathname w) of Inl e \<Rightarrow> (Inl e, w1) | Inr x \<Rightarrow> K x w1)"
  using glob0_scratch [OF assms] by (simp add: bnd_def split: sum.splits)

lemma get_build_env_Inr:
  assumes "map_of (environ w) ''PATH'' = Some amb"
  shows "get_build_env prefix mingw_gcc elf_gcc target w =
           (Inr (Obj (next_obj w)), snd (get_build_env prefix mingw_gcc elf_gcc target w))"
  using assms by (simp add: get_build_env_result)

lemma bnd_get_build_env:
  assumes "map_of (environ w) ''PATH'' = Some amb"
  shows "bnd (get_build_env prefix mingw_gcc elf_gcc target) K w =
           K (Obj (next_obj w)) (snd (get_build_env prefix mingw_gcc elf_gcc target w))"
  using assms by (simp add: bnd_def get_build_env_result)

lemma get_build_env_same_fs:
  "fs (snd (get_build_env prefix mingw_gcc elf_gcc target w)) = fs w"
  "getcwd (snd (get_build_env prefix mingw_gcc elf_gcc target w)) = getcwd w"
  "invoked (snd (get_build_env prefix mingw_gcc elf_gcc target w)) = invoked w"
  by (simp_all add: get_build_env_result split: option.splits)

lemma creatable_same_fs: "fs w1 = fs w \<Longrightarrow> getcwd w1 = getcwd w \<Longrightarrow> creatable w1 n = creatable w n"
  by (simp add: creatable_def)

lemma glob0_same_fs:
  "fs w1 = fs w \<Longrightarrow> getcwd w1 = getcwd w \<Longrightarrow> fst (glob0 pathname w1) = fst (glob0 pathname w)"
  by (cases "path_split pathname")
     (simp add: glob0_def glob_def bnd_def raise_def ret_def stat_def split: list.splits)

lemma source_patterns:
  "fst (path_split ''sources/*binutils*'') = ''sources''"
  "fst (path_split ''sources/*gcc*'') = ''sources''"
  "fst (path_split ''sources/*gdb*'') = ''sources''"
  "fst (path_split ''sources/*mingw*'') = ''sources''"
  by code_simp+

lemma build_elf_toolchain_run:
  assumes p: "map_of (environ w) ''PATH'' = Some amb"
    and c1: "creatable w ''build/build-binutils-x86_64-elf''"
    and c2: "creatable w ''build/build-gdb-x86_64-elf''"
    and c3: "creatable w ''build/build-gcc-x86_64-elf''"
  shows "\<exists>w1. scratch_only (snd (get_build_env prefix [] [] ''x86_64-elf'' w)) w1 \<and>
           build_elf_toolchain X prefix w =
             (
              case fst (glob0 ''sources/*binutils*'' w) of Inl e \<Rightarrow> (Inl e, w1) | Inr binutils \<Rightarrow>
              case fst (glob0 ''sources/*gdb*'' w) of Inl e \<Rightarrow> (Inl e, w1) | Inr gdb \<Rightarrow>
              case fst (glob0 ''sources/*gcc*'' w) of Inl e \<Rightarrow> (Inl e, w1) | Inr gcc \<Rightarrow>
                exec X (build_elf_toolchain_steps (getcwd w) ''x86_64-elf'' (Obj (next_obj w))
                          binutils gdb gcc prefix) w1)"
proof -
  let ?we = "snd (get_build_env prefix [] [] ''x86_64-elf'' w)"
  note same = get_build_env_same_fs [of prefix "[]" "[]" "''x86_64-elf''" w]
  have c:
    "creatable ?we (''build/'' @ ''build-binutils-x86_64-elf'')"
    "creatable ?we (''build/'' @ ''build-gdb-x86_64-elf'')"
    "creatable ?we (''build/'' @ ''build-gcc-x86_64-elf'')"
    using c1 c2 c3 creatable_same_fs [OF same(1,2)] by simp_all
  obtain w1 where w1: "scratch_only ?we w1"
    and k1: "\<And>K :: unit prog. thn (makedirs (''build/'' @ ''build-binutils-x86_64-elf'')) K ?we = K w1"
    using thn_makedirs_scratch [OF scratch_only_refl c(1)] by auto
  obtain w2 where w2: "scratch_only ?we w2"
    and k2: "\<And>K :: unit prog. thn (makedirs (''build/'' @ ''build-gdb-x86_64-elf'')) K w1 = K w2"
    using thn_makedirs_scratch [OF w1 c(2)] by auto
  obtain w3 where w3: "scratch_only ?we w3"
    and k3: "\<And>K :: unit prog. thn (makedirs (''build/'' @ ''build-gcc-x86_64-elf'')) K w2 = K w3"
    using thn_makedirs_scratch [OF w2 c(3)] by auto
  have gl: "fst (glob0 pathname ?we) = fst (glob0 pathname w)" for pathname
    using same by (intro glob0_same_fs)
  have cw: "getcwd w3 = getcwd w"
    using scratch_only_fields(4) [OF w3] same by simp
  have "build_elf_toolchain X prefix w =
          thn (makedirs (''build/'' @ ''build-binutils-x86_64-elf'')) (
          thn (makedirs (''build/'' @ ''build-gdb-x86_64-elf'')) (
          thn (makedirs (''build/'' @ ''build-gcc-x86_64-elf'')) (
          bnd (glob0 ''sources/*binutils*'') (\<lambda>binutils.
          bnd (glob0 ''sources/*gdb*'') (\<lambda>gdb.
          bnd (glob0 ''sources/*gcc*'') (\<lambda>gcc. \<lambda>w'.
          exec X (build_elf_toolchain_steps (getcwd w') ''x86_64-elf'' (Obj (next_obj w))
                          binutils gdb gcc prefix) w')))))) ?we"
    by (simp add: build_elf_toolchain_def Let_def bnd_get_build_env [OF p])
  also have "\<dots> =
          bnd (glob0 ''sources/*binutils*'') (\<lambda>binutils.
          bnd (glob0 ''sources/*gdb*'') (\<lambda>gdb.
          bnd (glob0 ''sources/*gcc*'') (\<lambda>gcc. \<lambda>w'.
          exec X (build_elf_toolchain_steps (getcwd w') ''x86_64-elf'' (Obj (next_obj w))
                          binutils gdb gcc prefix) w'))) w3"
    by (simp only: k1 k2 k3)
  also have "\<dots> =
             (
              case fst (glob0 ''sources/*binutils*'' w) of Inl e \<Rightarrow> (Inl e, w3) | Inr binutils \<Rightarrow>
              case fst (glob0 ''sources/*gdb*'' w) of Inl e \<Rightarrow> (Inl e, w3) | Inr gdb \<Rightarrow>
              case fst (glob0 ''sources/*gcc*'' w) of Inl e \<Rightarrow> (Inl e, w3) | Inr gcc \<Rightarrow>
                exec X (build_elf_toolchain_steps (getcwd w) ''x86_64-elf'' (Obj (next_obj w))
                          binutils gdb gcc prefix) w3)"
    by (simp only: bnd_glob0_scratch [OF w3] source_patterns gl cw)
  finally show ?thesis
    using w3 by blast
qed

lemma build_win_elf_run:
  assumes p: "map_of (environ w) ''PATH'' = Some amb"
    and c1: "creatable w ''build/build-win-elf-binutils-x86_64-elf''"
    and c2: "creatable w ''build/build-win-elf-gdb-x86_64-elf''"
    and c3: "creatable w ''build/build-win-elf-gcc-x86_64-elf''"
  shows "\<exists>w1. scratch_only (snd (get_build_env prefix mingw_prefix elf_prefix ''x86_64-elf'' w)) w1 \<and>
           build_win_elf X prefix mingw_prefix elf_prefix win_mingw_prefix w =
             (
              case fst (glob0 ''sources/*binutils*'' w) of Inl e \<Rightarrow> (Inl e, w1) | Inr binutils \<Rightarrow>
              case fst (glob0 ''sources/*gdb*'' w) of Inl e \<Rightarrow> (Inl e, w1) | Inr gdb \<Rightarrow>
              case fst (glob0 ''sources/*gcc*'' w) of Inl e \<Rightarrow> (Inl e, w1) | Inr gcc \<Rightarrow>
                exec X (build_win_elf_steps (getcwd w) ''x86_64-w64-mingw32'' ''x86_64-elf''
                          (Obj (next_obj w)) binutils gdb gcc prefix win_mingw_prefix) w1)"
proof -
  let ?we = "snd (get_build_env prefix mingw_prefix elf_prefix ''x86_64-elf'' w)"
  note same = get_build_env_same_fs [of prefix mingw_prefix elf_prefix "''x86_64-elf''" w]
  have c:
    "creatable ?we (''build/'' @ ''build-win-elf-binutils-x86_64-elf'')"
    "creatable ?we (''build/'' @ ''build-win-elf-gdb-x86_64-elf'')"
    "creatable ?we (''build/'' @ ''build-win-elf-gcc-x86_64-elf'')"
    using c1 c2 c3 creatable_same_fs [OF same(1,2)] by simp_all
  obtain w1 where w1: "scratch_only ?we w1"
    and k1: "\<And>K :: unit prog. thn (makedirs (''build/'' @ ''build-win-elf-binutils-x86_64-elf'')) K ?we = K w1"
    using thn_makedirs_scratch [OF scratch_only_refl c(1)] by auto
  obtain w2 where w2: "scratch_only ?we w2"
    and k2: "\<And>K :: unit prog. thn (makedirs (''build/'' @ ''build-win-elf-gdb-x86_64-elf'')) K w1 = K w2"
    using thn_makedirs_scratch [OF w1 c(2)] by auto
  obtain w3 where w3: "scratch_only ?we w3"
    and k3: "\<And>K :: unit prog. thn (makedirs (''build/'' @ ''build-win-elf-gcc-x86_64-elf'')) K w2 = K w3"
    using thn_makedirs_scratch [OF w2 c(3)] by auto
  have gl: "fst (glob0 pathname ?we) = fst (glob0 pathname w)" for pathname
    using same by (intro glob0_same_fs)
  have cw: "getcwd w3 = getcwd w"
    using scratch_only_fields(4) [OF w3] same by simp
  have "build_win_elf X prefix mingw_prefix elf_prefix win_mingw_prefix w =
          thn (makedirs (''build/'' @ ''build-win-elf-binutils-x86_64-elf'')) (
          thn (makedirs (''build/'' @ ''build-win-elf-gdb-x86_64-elf'')) (
          thn (makedirs (''build/'' @ ''build-win-elf-gcc-x86_64-elf'')) (
          bnd (glob0 ''sources/*binutils*'') (\<lambda>binutils.
          bnd (glob0 ''sources/*gdb*'') (\<lambda>gdb.
          bnd (glob0 ''sources/*gcc*'') (\<lambda>gcc. \<lambda>w'.
          exec X (build_win_elf_steps (getcwd w') ''x86_64-w64-mingw32'' ''x86_64-elf''
                          (Obj (next_obj w)) binutils gdb gcc prefix win_mingw_prefix) w')))))) ?we"
    by (simp add: build_win_elf_def Let_def bnd_get_build_env [OF p])
  also have "\<dots> =
          bnd (glob0 ''sources/*binutils*'') (\<lambda>binutils.
          bnd (glob0 ''sources/*gdb*'') (\<lambda>gdb.
          bnd (glob0 ''sources/*gcc*'') (\<lambda>gcc. \<lambda>w'.
          exec X (build_win_elf_steps (getcwd w') ''x86_64-w64-mingw32'' ''x86_64-elf''
                          (Obj (next_obj w)) binutils gdb gcc prefix win_mingw_prefix) w'))) w3"
    by (simp only: k1 k2 k3)
  also have "\<dots> =
             (
              case fst (glob0 ''sources/*binutils*'' w) of Inl e \<Rightarrow> (Inl e, w3) | Inr binutils \<Rightarrow>
              case fst (glob0 ''sources/*gdb*'' w) of Inl e \<Rightarrow> (Inl e, w3) | Inr gdb \<Rightarrow>
              case fst (glob0 ''sources/*gcc*'' w) of Inl e \<Rightarrow> (Inl e, w3) | Inr gcc \<Rightarrow>
                exec X (build_win_elf_steps (getcwd w) ''x86_64-w64-mingw32'' ''x86_64-elf''
                          (Obj (next_obj w)) binutils gdb gcc prefix win_mingw_prefix) w3)"
    by (simp only: bnd_glob0_scratch [OF w3] source_patterns gl cw)
  finally show ?thesis
    using w3 by blast
qed

lemma build_win_mingw_run:
  assumes p: "map_of (environ w) ''PATH'' = Some amb"
    and c1: "creatable w ''build/build-win-binutils-x86_64-w64-mingw32''"
    and c2: "creatable w ''build/build-win-gcc-x86_64-w64-mingw32''"
    and c3: "creatable w ''build/build-win-mingw-headers-x86_64-w64-mingw32''"
    and c4: "creatable w ''build/build-win-mingw-libs-x86_64-w64-mingw32''"
    and c5: "creatable w ''build/build-win-mingw-winpthreads-x86_64-w64-mingw32''"
  shows "\<exists>w1. scratch_only (snd (get_build_env prefix mingw_prefix [] ''x86_64-w64-mingw32'' w)) w1 \<and>
           build_win_mingw X prefix mingw_prefix w =
             (
              case fst (glob0 ''sources/*binutils*'' w) of Inl e \<Rightarrow> (Inl e, w1) | Inr binutils \<Rightarrow>
              case fst (glob0 ''sources/*gcc*'' w) of Inl e \<Rightarrow> (Inl e, w1) | Inr gcc \<Rightarrow>
              case fst (glob0 ''sources/*mingw*'' w) of Inl e \<Rightarrow> (Inl e, w1) | Inr mingw \<Rightarrow>
                exec X (build_win_mingw_steps (getcwd w) ''x86_64-w64-mingw32'' (Obj (next_obj w))
                          binutils gcc mingw prefix) w1)"
proof -
  let ?we = "snd (get_build_env prefix mingw_prefix [] ''x86_64-w64-mingw32'' w)"
  note same = get_build_env_same_fs [of prefix mingw_prefix "[]" "''x86_64-w64-mingw32''" w]
  have c:
    "creatable ?we (''build/'' @ ''build-win-binutils-x86_64-w64-mingw32'')"
    "creatable ?we (''build/'' @ ''build-win-gcc-x86_64-w64-mingw32'')"
    "creatable ?we (''build/'' @ ''build-win-mingw-headers-x86_64-w64-mingw32'')"
    "creatable ?we (''build/'' @ ''build-win-mingw-libs-x86_64-w64-mingw32'')"
    "creatable ?we (''build/'' @ ''build-win-mingw-winpthreads-x86_64-w64-mingw32'')"
    using c1 c2 c3 c4 c5 creatable_same_fs [OF same(1,2)] by simp_all
  obtain w1 where w1: "scratch_only ?we w1"
    and k1: "\<And>K :: unit prog. thn (makedirs (''build/'' @ ''build-win-binutils-x86_64-w64-mingw32'')) K ?we = K w1"
    using thn_makedirs_scratch [OF scratch_only_refl c(1)] by auto
  obtain w2 where w2: "scratch_only ?we w2"
    and k2: "\<And>K :: unit prog. thn (makedirs (''build/'' @ ''build-win-gcc-x86_64-w64-mingw32'')) K w1 = K w2"
    using thn_makedirs_scratch [OF w1 c(2)] by auto
  obtain w3 where w3: "scratch_only ?we w3"
    and k3: "\<And>K :: unit prog. thn (makedirs (''build/'' @ ''build-win-mingw-headers-x86_64-w64-mingw32'')) K w2 = K w3"
    using thn_makedirs_scratch [OF w2 c(3)] by auto
  obtain w4 where w4: "scratch_only ?we w4"
    and k4: "\<And>K :: unit prog. thn (makedirs (''build/'' @ ''build-win-mingw-libs-x86_64-w64-mingw32'')) K w3 = K w4"
    using thn_makedirs_scratch [OF w3 c(4)] by auto
  obtain w5 where w5: "scratch_only ?we w5"
    and k5: "\<And>K :: unit prog. thn (makedirs (''build/'' @ ''build-win-mingw-winpthreads-x86_64-w64-mingw32'')) K w4 = K w5"
    using thn_makedirs_scratch [OF w4 c(5)] by auto
  have gl: "fst (glob0 pathname ?we) = fst (glob0 pathname w)" for pathname
    using same by (intro glob0_same_fs)
  have cw: "getcwd w5 = getcwd w"
    using scratch_only_fields(4) [OF w5] same by simp
  have "build_win_mingw X prefix mingw_prefix w =
          thn (makedirs (''build/'' @ ''build-win-binutils-x86_64-w64-mingw32'')) (
          thn (makedirs (''build/'' @ ''build-win-gcc-x86_64-w64-mingw32'')) (
          thn (makedirs (''build/'' @ ''build-win-mingw-headers-x86_64-w64-mingw32'')) (
          thn (makedirs (''build/'' @ ''build-win-mingw-libs-x86_64-w64-mingw32'')) (
          thn (makedirs (''build/'' @ ''build-win-mingw-winpthreads-x86_64-w64-mingw32'')) (
          bnd (glob0 ''sources/*binutils*'') (\<lambda>binutils.
          bnd (glob0 ''sources/*gcc*'') (\<lambda>gcc.
          bnd (glob0 ''sources/*mingw*'') (\<lambda>mingw. \<lambda>w'.
          exec X (build_win_mingw_steps (getcwd w') ''x86_64-w64-mingw32'' (Obj (next_obj w))
                          binutils gcc mingw prefix) w')))))))) ?we"
    by (simp add: build_win_mingw_def Let_def bnd_get_build_env [OF p])
  also have "\<dots> =
          bnd (glob0 ''sources/*binutils*'') (\<lambda>binutils.
          bnd (glob0 ''sources/*gcc*'') (\<lambda>gcc.
          bnd (glob0 ''sources/*mingw*'') (\<lambda>mingw. \<lambda>w'.
          exec X (build_win_mingw_steps (getcwd w') ''x86_64-w64-mingw32'' (Obj (next_obj w))
                          binutils gcc mingw prefix) w'))) w5"
    by (simp only: k1 k2 k3 k4 k5)
  also have "\<dots> =
             (
              case fst (glob0 ''sources/*binutils*'' w) of Inl e \<Rightarrow> (Inl e, w5) | Inr binutils \<Rightarrow>
              case fst (glob0 ''sources/*gcc*'' w) of Inl e \<Rightarrow> (Inl e, w5) | Inr gcc \<Rightarrow>
              case fst (glob0 ''sources/*mingw*'' w) of Inl e \<Rightarrow> (Inl e, w5) | Inr mingw \<Rightarrow>
                exec X (build_win_mingw_steps (getcwd w) ''x86_64-w64-mingw32'' (Obj (next_obj w))
                          binutils gcc mingw prefix) w5)"
    by (simp only: bnd_glob0_scratch [OF w5] source_patterns gl cw)
  finally show ?thesis
    using w5 by blast
qed

lemma build_mingw_toolchain_run:
  assumes p: "map_of (environ w) ''PATH'' = Some amb"
    and c1: "creatable w ''build/build-binutils-x86_64-w64-mingw32''"
    and c2: "creatable w ''build/build-gcc-x86_64-w64-mingw32''"
    and c3: "creatable w ''build/build-mingw-headers-x86_64-w64-mingw32''"
    and c4: "creatable w ''build/build-mingw-libs-x86_64-w64-mingw32''"
    and c5: "creatable w ''build/build-mingw-winpthreads-x86_64-w64-mingw32''"
  shows "\<exists>w1. scratch_only (snd (get_build_env prefix [] [] ''x86_64-w64-mingw32'' w)) w1 \<and>
           build_mingw_toolchain X prefix w =
             (
              case fst (glob0 ''sources/*binutils*'' w) of Inl e \<Rightarrow> (Inl e, w1) | Inr binutils \<Rightarrow>
              case fst (glob0 ''sources/*gcc*'' w) of Inl e \<Rightarrow> (Inl e, w1) | Inr gcc \<Rightarrow>
              case fst (glob0 ''sources/*mingw*'' w) of Inl e \<Rightarrow> (Inl e, w1) | Inr mingw \<Rightarrow>
                (thn (\<lambda>v. exec X (build_mingw_toolchain_steps1 (getcwd v) ''x86_64-w64-mingw32''
                                  (Obj (next_obj w)) binutils gcc mingw prefix) v) (
                 bnd (dict_copy (Obj (next_obj w))) (\<lambda>env_copy.
                 thn (setitem env_copy ''CC'' ''x86_64-w64-mingw32-gcc'') (
                 thn (setitem env_copy ''CXX'' ''x86_64-w64-mingw32-g++'') (
                 thn (setitem env_copy ''CPP'' ''x86_64-w64-mingw32-cpp'') (\<lambda>v.
                 exec X (build_mingw_toolchain_steps2 (getcwd v) ''x86_64-w64-mingw32''
                           (Obj (next_obj w)) env_copy mingw prefix) v)))))) w1)"
proof -
  let ?we = "snd (get_build_env prefix [] [] ''x86_64-w64-mingw32'' w)"
  note same = get_build_env_same_fs [of prefix "[]" "[]" "''x86_64-w64-mingw32''" w]
  have c:
    "creatable ?we (''build/'' @ ''build-binutils-x86_64-w64-mingw32'')"
    "creatable ?we (''build/'' @ ''build-gcc-x86_64-w64-mingw32'')"
    "creatable ?we (''build/'' @ ''build-mingw-headers-x86_64-w64-mingw32'')"
    "creatable ?we (''build/'' @ ''build-mingw-libs-x86_64-w64-mingw32'')"
    "creatable ?we (''build/'' @ ''build-mingw-winpthreads-x86_64-w64-mingw32'')"
    using c1 c2 c3 c4 c5 creatable_same_fs [OF same(1,2)] by simp_all
  obtain w1 where w1: "scratch_only ?we w1"
    and k1: "\<And>K :: unit prog. thn (makedirs (''build/'' @ ''build-binutils-x86_64-w64-mingw32'')) K ?we = K w1"
    using thn_makedirs_scratch [OF scratch_only_refl c(1)] by auto
  obtain w2 where w2: "scratch_only ?we w2"
    and k2: "\<And>K :: unit prog. thn (makedirs (''build/'' @ ''build-gcc-x86_64-w64-mingw32'')) K w1 = K w2"
    using thn_makedirs_scratch [OF w1 c(2)] by auto
  obtain w3 where w3: "scratch_only ?we w3"
    and k3: "\<And>K :: unit prog. thn (makedirs (''build/'' @ ''build-mingw-headers-x86_64-w64-mingw32'')) K w2 = K w3"
    using thn_makedirs_scratch [OF w2 c(3)] by auto
  obtain w4 where w4: "scratch_only ?we w4"
    and k4: "\<And>K :: unit prog. thn (makedirs (''build/'' @ ''build-mingw-libs-x86_64-w64-mingw32'')) K w3 = K w4"
    using thn_makedirs_scratch [OF w3 c(4)] by auto
  obtain w5 where w5: "scratch_only ?we w5"
    and k5: "\<And>K :: unit prog. thn (makedirs (''build/'' @ ''build-mingw-winpthreads-x86_64-w64-mingw32'')) K w4 = K w5"
    using thn_makedirs_scratch [OF w4 c(5)] by auto
  have gl: "fst (glob0 pathname ?we) = fst (glob0 pathname w)" for pathname
    using same by (intro glob0_same_fs)
  have cw: "getcwd w5 = getcwd w"
    using scratch_only_fields(4) [OF w5] same by simp
  have "build_mingw_toolchain X prefix w =
          thn (makedirs (''build/'' @ ''build-binutils-x86_64-w64-mingw32'')) (
          thn (makedirs (''build/'' @ ''build-gcc-x86_64-w64-mingw32'')) (
          thn (makedirs (''build/'' @ ''build-mingw-headers-x86_64-w64-mingw32'')) (
          thn (makedirs (''build/'' @ ''build-mingw-libs-x86_64-w64-mingw32'')) (
          thn (makedirs (''build/'' @ ''build-mingw-winpthreads-x86_64-w64-mingw32'')) (
          bnd (glob0 ''sources/*binutils*'') (\<lambda>binutils.
          bnd (glob0 ''sources/*gcc*'') (\<lambda>gcc.
          bnd (glob0 ''sources/*mingw*'') (\<lambda>mingw. \<lambda>w'.
          (thn (\<lambda>v. exec X (build_mingw_toolchain_steps1 (getcwd v) ''x86_64-w64-mingw32''
                                  (Obj (next_obj w)) binutils gcc mingw prefix) v) (
                 bnd (dict_copy (Obj (next_obj w))) (\<lambda>env_copy.
                 thn (setitem env_copy ''CC'' ''x86_64-w64-mingw32-gcc'') (
                 thn (setitem env_copy ''CXX'' ''x86_64-w64-mingw32-g++'') (
                 thn (setitem env_copy ''CPP'' ''x86_64-w64-mingw32-cpp'') (\<lambda>v.
                 exec X (build_mingw_toolchain_steps2 (getcwd v) ''x86_64-w64-mingw32''
                           (Obj (next_obj w)) env_copy mingw prefix) v)))))) w')))))))) ?we"
    by (simp add: build_mingw_toolchain_def Let_def bnd_get_build_env [OF p])
  also have "\<dots> =
          bnd (glob0 ''sources/*binutils*'') (\<lambda>binutils.
          bnd (glob0 ''sources/*gcc*'') (\<lambda>gcc.
          bnd (glob0 ''sources/*mingw*'') (\<lambda>mingw. \<lambda>w'.
          (thn (\<lambda>v. exec X (build_mingw_toolchain_steps1 (getcwd v) ''x86_64-w64-mingw32''
                                  (Obj (next_obj w)) binutils gcc mingw prefix) v) (
                 bnd (dict_copy (Obj (next_obj w))) (\<lambda>env_copy.
                 thn (setitem env_copy ''CC'' ''x86_64-w64-mingw32-gcc'') (
                 thn (setitem env_copy ''CXX'' ''x86_64-w64-mingw32-g++'') (
                 thn (setitem env_copy ''CPP'' ''x86_64-w64-mingw32-cpp'') (\<lambda>v.
                 exec X (build_mingw_toolchain_steps2 (getcwd v) ''x86_64-w64-mingw32''
                           (Obj (next_obj w)) env_copy mingw prefix) v)))))) w'))) w5"
    by (simp only: k1 k2 k3 k4 k5)
  also have "\<dots> =
             (
              case fst (glob0 ''sources/*binutils*'' w) of Inl e \<Rightarrow> (Inl e, w5) | Inr binutils \<Rightarrow>
              case fst (glob0 ''sources/*gcc*'' w) of Inl e \<Rightarrow> (Inl e, w5) | Inr gcc \<Rightarrow>
              case fst (glob0 ''sources/*mingw*'' w) of Inl e \<Rightarrow> (Inl e, w5) | Inr mingw \<Rightarrow>
                (thn (\<lambda>v. exec X (build_mingw_toolchain_steps1 (getcwd v) ''x86_64-w64-mingw32''
                                  (Obj (next_obj w)) binutils gcc mingw prefix) v) (
                 bnd (dict_copy (Obj (next_obj w))) (\<lambda>env_copy.
                 thn (setitem env_copy ''CC'' ''x86_64-w64-mingw32-gcc'') (
                 thn (setitem env_copy ''CXX'' ''x86_64-w64-mingw32-g++'') (
                 thn (setitem env_copy ''CPP'' ''x86_64-w64-mingw32-cpp'') (\<lambda>v.
                 exec X (build_mingw_toolchain_steps2 (getcwd v) ''x86_64-w64-mingw32''
                           (Obj (next_obj w)) env_copy mingw prefix) v)))))) w5)"
    by (simp only: bnd_glob0_scratch [OF w5] source_patterns gl cw)
  finally show ?thesis
    using w5 by blast
qed

subsection \<open>Looking up the source trees\<close>

lemma fnmatch_star [simp]: "fnmatch s ''*''"
  by (induction s) simp_all

lemma fnmatch_literal_star:
  "CHR ''*'' \<notin> set sub \<Longrightarrow> fnmatch s (sub @ ''*'') = startswith s sub"
  by (induction s sub rule: startswith.induct) auto

lemma startswith_Nil: "startswith [] t \<longleftrightarrow> t = []"
  by (cases t) simp_all

lemma fnmatch_contains:
  "CHR ''*'' \<notin> set sub \<Longrightarrow> fnmatch s (CHR ''*'' # sub @ ''*'') = contains s sub"
  by (induction s) (auto simp: fnmatch_literal_star startswith_Nil)

lemma glob0_first_visible:
  assumes "path_split pathname = (''sources'', CHR ''*'' # sub @ ''*'')" and "CHR ''*'' \<notin> set sub"
  shows "fst (glob0 pathname w) = first_visible_source w sub"
proof -
  have "\<not> ishidden (CHR ''*'' # sub @ ''*'')"
    by (simp add: ishidden_def)
  then show ?thesis
    using assms
    by (auto simp: glob0_def glob_def glob1_def bnd_def raise_def ret_def first_visible_source_def
          fnmatch_contains ishidden_def
        split: option.splits node.splits list.splits)
qed

lemma source_pattern_split:
  "path_split ''sources/*binutils*'' = (''sources'', CHR ''*'' # ''binutils'' @ ''*'')"
  "path_split ''sources/*gcc*'' = (''sources'', CHR ''*'' # ''gcc'' @ ''*'')"
  "path_split ''sources/*gdb*'' = (''sources'', CHR ''*'' # ''gdb'' @ ''*'')"
  "path_split ''sources/*mingw*'' = (''sources'', CHR ''*'' # ''mingw'' @ ''*'')"
  by code_simp+

lemma glob0_sources:
  "fst (glob0 ''sources/*binutils*'' w) = first_visible_source w ''binutils''"
  "fst (glob0 ''sources/*gcc*'' w) = first_visible_source w ''gcc''"
  "fst (glob0 ''sources/*gdb*'' w) = first_visible_source w ''gdb''"
  "fst (glob0 ''sources/*mingw*'' w) = first_visible_source w ''mingw''"
  by (rule glob0_first_visible, rule source_pattern_split, simp)+

lemma first_visible_source_cases:
  "first_visible_source w c = Inl IndexError \<or> (\<exists>x. first_visible_source w c = Inr x)"
  by (auto simp: first_visible_source_def split: option.splits node.splits list.splits)

lemma scratch_only_invoked:
  "scratch_only (snd (get_build_env prefix mingw_gcc elf_gcc target w)) w1 \<Longrightarrow>
   invoked w1 = invoked w"
  using scratch_only_fields(6) get_build_env_same_fs(3) by metis

lemma build_elf_toolchain_missing:
  assumes "map_of (environ w) ''PATH'' = Some amb"
    and "creatable w ''build/build-binutils-x86_64-elf''"
    and "creatable w ''build/build-gdb-x86_64-elf''"
    and "creatable w ''build/build-gcc-x86_64-elf''"
    and "first_visible_source w ''binutils'' = Inl IndexError \<or>
         first_visible_source w ''gdb'' = Inl IndexError \<or>
         first_visible_source w ''gcc'' = Inl IndexError"
  shows "fst (build_elf_toolchain X prefix w) = Inl IndexError \<and>
         invoked (snd (build_elf_toolchain X prefix w)) = invoked w"
proof -
  obtain w1 where s: "scratch_only (snd (get_build_env prefix [] [] ''x86_64-elf'' w)) w1"
    and r: "build_elf_toolchain X prefix w =
             (case first_visible_source w ''binutils'' of Inl e \<Rightarrow> (Inl e, w1) | Inr binutils \<Rightarrow>
              case first_visible_source w ''gdb'' of Inl e \<Rightarrow> (Inl e, w1) | Inr gdb \<Rightarrow>
              case first_visible_source w ''gcc'' of Inl e \<Rightarrow> (Inl e, w1) | Inr gcc \<Rightarrow>
                exec X (build_elf_toolchain_steps (getcwd w) ''x86_64-elf'' (Obj (next_obj w))
                          binutils gdb gcc prefix) w1)"
    using build_elf_toolchain_run [OF assms(1-4), of prefix X] unfolding glob0_sources by blast
  have i: "invoked w1 = invoked w"
    using s by (rule scratch_only_invoked)
  show ?thesis
    using assms(5) first_visible_source_cases [of w "''binutils''"]
      first_visible_source_cases [of w "''gdb''"] first_visible_source_cases [of w "''gcc''"]
    by (auto simp: r i)
qed

lemma stages_of_scratch:
  "scratch_only w w1 \<Longrightarrow> stages_of w1 ss = stages_of w ss"
  by (intro stages_of_cong scratch_only_fields)

lemma build_elf_toolchain_trace:
  assumes "map_of (environ w) ''PATH'' = Some amb"
    and "creatable w ''build/build-binutils-x86_64-elf''"
    and "creatable w ''build/build-gdb-x86_64-elf''"
    and "creatable w ''build/build-gcc-x86_64-elf''"
    and "first_visible_source w ''binutils'' = Inr binutils"
    and "first_visible_source w ''gdb'' = Inr gdb"
    and "first_visible_source w ''gcc'' = Inr gcc"
  shows "\<exists>k. 0 < k \<and>
           invoked (snd (build_elf_toolchain X prefix w)) =
             invoked w @ take k (stages_of (snd (get_build_env prefix [] [] ''x86_64-elf'' w))
               (build_elf_toolchain_steps (getcwd w) ''x86_64-elf'' (Obj (next_obj w))
                  binutils gdb gcc prefix))"
    and "fst (build_elf_toolchain X prefix w) = Inr () \<Longrightarrow>
           invoked (snd (build_elf_toolchain X prefix w)) =
             invoked w @ stages_of (snd (get_build_env prefix [] [] ''x86_64-elf'' w))
               (build_elf_toolchain_steps (getcwd w) ''x86_64-elf'' (Obj (next_obj w))
                  binutils gdb gcc prefix)"
    and "(\<And>n st t. \<exists>p t'. runner X n st t = Spawned p t') \<Longrightarrow>
           fst (build_elf_toolchain X prefix w) = Inr ()"
proof -
  let ?ss = "build_elf_toolchain_steps (getcwd w) ''x86_64-elf'' (Obj (next_obj w))
               binutils gdb gcc prefix"
  obtain w1 where s: "scratch_only (snd (get_build_env prefix [] [] ''x86_64-elf'' w)) w1"
    and r: "build_elf_toolchain X prefix w = exec X ?ss w1"
    using build_elf_toolchain_run [OF assms(1-4), of prefix X] unfolding glob0_sources
    by (auto simp: assms(5-7))
  have i: "invoked w1 = invoked w"
    using s by (rule scratch_only_invoked)
  note c = stages_of_scratch [OF s]
  have ne: "stages_of w1 ?ss \<noteq> []"
    by (simp add: build_elf_toolchain_steps_def)
  show "\<exists>k. 0 < k \<and>
           invoked (snd (build_elf_toolchain X prefix w)) =
             invoked w @ take k (stages_of (snd (get_build_env prefix [] [] ''x86_64-elf'' w)) ?ss)"
    using exec_invoked_prefix [of w1 ?ss X] ne by (auto simp: r i c)
  show "invoked (snd (build_elf_toolchain X prefix w)) =
             invoked w @ stages_of (snd (get_build_env prefix [] [] ''x86_64-elf'' w)) ?ss"
    if "fst (build_elf_toolchain X prefix w) = Inr ()"
    using exec_invoked_all [of X ?ss w1] that by (simp add: r i c)
  show "fst (build_elf_toolchain X prefix w) = Inr ()"
    if "\<And>n st t. \<exists>p t'. runner X n st t = Spawned p t'"
    using exec_spawning [of X ?ss w1] that by (simp add: r)
qed

lemma build_win_elf_trace:
  assumes "map_of (environ w) ''PATH'' = Some amb"
    and "creatable w ''build/build-win-elf-binutils-x86_64-elf''"
    and "creatable w ''build/build-win-elf-gdb-x86_64-elf''"
    and "creatable w ''build/build-win-elf-gcc-x86_64-elf''"
    and "first_visible_source w ''binutils'' = Inr binutils"
    and "first_visible_source w ''gdb'' = Inr gdb"
    and "first_visible_source w ''gcc'' = Inr gcc"
  shows "\<exists>k. 0 < k \<and>
           invoked (snd (build_win_elf X prefix mingw_prefix elf_prefix win_mingw_prefix w)) =
             invoked w @ take k (stages_of (snd (get_build_env prefix mingw_prefix elf_prefix ''x86_64-elf'' w))
               (build_win_elf_steps (getcwd w) ''x86_64-w64-mingw32'' ''x86_64-elf''
                          (Obj (next_obj w)) binutils gdb gcc prefix win_mingw_prefix))"
    and "fst (build_win_elf X prefix mingw_prefix elf_prefix win_mingw_prefix w) = Inr () \<Longrightarrow>
           invoked (snd (build_win_elf X prefix mingw_prefix elf_prefix win_mingw_prefix w)) =
             invoked w @ stages_of (snd (get_build_env prefix mingw_prefix elf_prefix ''x86_64-elf'' w))
               (build_win_elf_steps (getcwd w) ''x86_64-w64-mingw32'' ''x86_64-elf''
                          (Obj (next_obj w)) binutils gdb gcc prefix win_mingw_prefix)"
    and "(\<And>n st t. \<exists>p t'. runner X n st t = Spawned p t') \<Longrightarrow>
           fst (build_win_elf X prefix mingw_prefix elf_prefix win_mingw_prefix w) = Inr ()"
proof -
  let ?ss = "build_win_elf_steps (getcwd w) ''x86_64-w64-mingw32'' ''x86_64-elf''
                          (Obj (next_obj w)) binutils gdb gcc prefix win_mingw_prefix"
  obtain w1 where s: "scratch_only (snd (get_build_env prefix mingw_prefix elf_prefix ''x86_64-elf'' w)) w1"
    and r: "build_win_elf X prefix mingw_prefix elf_prefix win_mingw_prefix w = exec X ?ss w1"
    using build_win_elf_run [OF assms(1-4), where X = X and prefix = prefix and mingw_prefix = mingw_prefix and elf_prefix = elf_prefix and win_mingw_prefix = win_mingw_prefix] unfolding glob0_sources
    by (auto simp: assms(5-7))
  have i: "invoked w1 = invoked w"
    using s by (rule scratch_only_invoked)
  note c = stages_of_scratch [OF s]
  have ne: "stages_of w1 ?ss \<noteq> []"
    by (simp add: build_win_elf_steps_def)
  show "\<exists>k. 0 < k \<and>
           invoked (snd (build_win_elf X prefix mingw_prefix elf_prefix win_mingw_prefix w)) =
             invoked w @ take k (stages_of (snd (get_build_env prefix mingw_prefix elf_prefix ''x86_64-elf'' w)) ?ss)"
    using exec_invoked_prefix [of w1 ?ss X] ne by (auto simp: r i c)
  show "invoked (snd (build_win_elf X prefix mingw_prefix elf_prefix win_mingw_prefix w)) =
             invoked w @ stages_of (snd (get_build_env prefix mingw_prefix elf_prefix ''x86_64-elf'' w)) ?ss"
    if "fst (build_win_elf X prefix mingw_prefix elf_prefix win_mingw_prefix w) = Inr ()"
    using exec_invoked_all [of X ?ss w1] that by (simp add: r i c)
  show "fst (build_win_elf X prefix mingw_prefix elf_prefix win_mingw_prefix w) = Inr ()"
    if "\<And>n st t. \<exists>p t'. runner X n st t = Spawned p t'"
    using exec_spawning [of X ?ss w1] that by (simp add: r)
qed

lemma build_win_mingw_trace:
  assumes "map_of (environ w) ''PATH'' = Some amb"
    and "creatable w ''build/build-win-binutils-x86_64-w64-mingw32''"
    and "creatable w ''build/build-win-gcc-x86_64-w64-mingw32''"
    and "creatable w ''build/build-win-mingw-headers-x86_64-w64-mingw32''"
    and "creatable w ''build/build-win-mingw-libs-x86_64-w64-mingw32''"
    and "creatable w ''build/build-win-mingw-winpthreads-x86_64-w64-mingw32''"
    and "first_visible_source w ''binutils'' = Inr binutils"
    and "first_visible_source w ''gcc'' = Inr gcc"
    and "first_visible_source w ''mingw'' = Inr mingw"
  shows "\<exists>k. 0 < k \<and>
           invoked (snd (build_win_mingw X prefix mingw_prefix w)) =
             invoked w @ take k (stages_of (snd (get_build_env prefix mingw_prefix [] ''x86_64-w64-mingw32'' w))
               (build_win_mingw_steps (getcwd w) ''x86_64-w64-mingw32'' (Obj (next_obj w))
                          binutils gcc mingw prefix))"
    and "fst (build_win_mingw X prefix mingw_prefix w) = Inr () \<Longrightarrow>
           invoked (snd (build_win_mingw X prefix mingw_prefix w)) =
             invoked w @ stages_of (snd (get_build_env prefix mingw_prefix [] ''x86_64-w64-mingw32'' w))
               (build_win_mingw_steps (getcwd w) ''x86_64-w64-mingw32'' (Obj (next_obj w))
                          binutils gcc mingw prefix)"
    and "(\<And>n st t. \<exists>p t'. runner X n st t = Spawned p t') \<Longrightarrow>
           fst (build_win_mingw X prefix mingw_prefix w) = Inr ()"
proof -
  let ?ss = "build_win_mingw_steps (getcwd w) ''x86_64-w64-mingw32'' (Obj (next_obj w))
                          binutils gcc mingw prefix"
  obtain w1 where s: "scratch_only (snd (get_build_env prefix mingw_prefix [] ''x86_64-w64-mingw32'' w)) w1"
    and r: "build_win_mingw X prefix mingw_prefix w = exec X ?ss w1"
    using build_win_mingw_run [OF assms(1-6), where X = X and prefix = prefix and mingw_prefix = mingw_prefix] unfolding glob0_sources
    by (auto simp: assms(7-9))
  have i: "invoked w1 = invoked w"
    using s by (rule scratch_only_invoked)
  note c = stages_of_scratch [OF s]
  have ne: "stages_of w1 ?ss \<noteq> []"
    by (simp add: build_win_mingw_steps_def)
  show "\<exists>k. 0 < k \<and>
           invoked (snd (build_win_mingw X prefix mingw_prefix w)) =
             invoked w @ take k (stages_of (snd (get_build_env prefix mingw_prefix [] ''x86_64-w64-mingw32'' w)) ?ss)"
    using exec_invoked_prefix [of w1 ?ss X] ne by (auto simp: r i c)
  show "invoked (snd (build_win_mingw X prefix mingw_prefix w)) =
             invoked w @ stages_of (snd (get_build_env prefix mingw_prefix [] ''x86_64-w64-mingw32'' w)) ?ss"
    if "fst (build_win_mingw X prefix mingw_prefix w) = Inr ()"
    using exec_invoked_all [of X ?ss w1] that by (simp add: r i c)
  show "fst (build_win_mingw X prefix mingw_prefix w) = Inr ()"
    if "\<And>n st t. \<exists>p t'. runner X n st t = Spawned p t'"
    using exec_spawning [of X ?ss w1] that by (simp add: r)
qed

lemma build_win_elf_missing:
  assumes "map_of (environ w) ''PATH'' = Some amb"
    and "creatable w ''build/build-win-elf-binutils-x86_64-elf''"
    and "creatable w ''build/build-win-elf-gdb-x86_64-elf''"
    and "creatable w ''build/build-win-elf-gcc-x86_64-elf''"
    and "first_visible_source w ''binutils'' = Inl IndexError \<or>
         first_visible_source w ''gdb'' = Inl IndexError \<or>
         first_visible_source w ''gcc'' = Inl IndexError"
  shows "fst (build_win_elf X prefix mingw_prefix elf_prefix win_mingw_prefix w) = Inl IndexError \<and>
         invoked (snd (build_win_elf X prefix mingw_prefix elf_prefix win_mingw_prefix w)) = invoked w"
proof -
  obtain w1 where s: "scratch_only (snd (get_build_env prefix mingw_prefix elf_prefix ''x86_64-elf'' w)) w1"
    and r: "build_win_elf X prefix mingw_prefix elf_prefix win_mingw_prefix w =
             (
              case first_visible_source w ''binutils'' of Inl e \<Rightarrow> (Inl e, w1) | Inr binutils \<Rightarrow>
              case first_visible_source w ''gdb'' of Inl e \<Rightarrow> (Inl e, w1) | Inr gdb \<Rightarrow>
              case first_visible_source w ''gcc'' of Inl e \<Rightarrow> (Inl e, w1) | Inr gcc \<Rightarrow>
                exec X (build_win_elf_steps (getcwd w) ''x86_64-w64-mingw32'' ''x86_64-elf''
                          (Obj (next_obj w)) binutils gdb gcc prefix win_mingw_prefix) w1)"
    using build_win_elf_run [OF assms(1-4), where X = X and prefix = prefix and mingw_prefix = mingw_prefix and elf_prefix = elf_prefix and win_mingw_prefix = win_mingw_prefix] unfolding glob0_sources by blast
  have i: "invoked w1 = invoked w"
    using s by (rule scratch_only_invoked)
  show ?thesis
    using assms(5) first_visible_source_cases [of w "''binutils''"] first_visible_source_cases [of w "''gdb''"] first_visible_source_cases [of w "''gcc''"]
    by (auto simp: r i)
qed

lemma build_win_mingw_missing:
  assumes "map_of (environ w) ''PATH'' = Some amb"
    and "creatable w ''build/build-win-binutils-x86_64-w64-mingw32''"
    and "creatable w ''build/build-win-gcc-x86_64-w64-mingw32''"
    and "creatable w ''build/build-win-mingw-headers-x86_64-w64-mingw32''"
    and "creatable w ''build/build-win-mingw-libs-x86_64-w64-mingw32''"
    and "creatable w ''build/build-win-mingw-winpthreads-x86_64-w64-mingw32''"
    and "first_visible_source w ''binutils'' = Inl IndexError \<or>
         first_visible_source w ''gcc'' = Inl IndexError \<or>
         first_visible_source w ''mingw'' = Inl IndexError"
  shows "fst (build_win_mingw X prefix mingw_prefix w) = Inl IndexError \<and>
         invoked (snd (build_win_mingw X prefix mingw_prefix w)) = invoked w"
proof -
  obtain w1 where s: "scratch_only (snd (get_build_env prefix mingw_prefix [] ''x86_64-w64-mingw32'' w)) w1"
    and r: "build_win_mingw X prefix mingw_prefix w =
             (
              case first_visible_source w ''binutils'' of Inl e \<Rightarrow> (Inl e, w1) | Inr binutils \<Rightarrow>
              case first_visible_source w ''gcc'' of Inl e \<Rightarrow> (Inl e, w1) | Inr gcc \<Rightarrow>
              case first_visible_source w ''mingw'' of Inl e \<Rightarrow> (Inl e, w1) | Inr mingw \<Rightarrow>
                exec X (build_win_mingw_steps (getcwd w) ''x86_64-w64-mingw32'' (Obj (next_obj w))
                          binutils gcc mingw prefix) w1)"
    using build_win_mingw_run [OF assms(1-6), where X = X and prefix = prefix and mingw_prefix = mingw_prefix] unfolding glob0_sources by blast
  have i: "invoked w1 = invoked w"
    using s by (rule scratch_only_invoked)
  show ?thesis
    using assms(7) first_visible_source_cases [of w "''binutils''"] first_visible_source_cases [of w "''gcc''"] first_visible_source_cases [of w "''mingw''"]
    by (auto simp: r i)
qed

lemma build_mingw_toolchain_missing:
  assumes "map_of (environ w) ''PATH'' = Some amb"
    and "creatable w ''build/build-binutils-x86_64-w64-mingw32''"
    and "creatable w ''build/build-gcc-x86_64-w64-mingw32''"
    and "creatable w ''build/build-mingw-headers-x86_64-w64-mingw32''"
    and "creatable w ''build/build-mingw-libs-x86_64-w64-mingw32''"
    and "creatable w ''build/build-mingw-winpthreads-x86_64-w64-mingw32''"
    and "first_visible_source w ''binutils'' = Inl IndexError \<or>
         first_visible_source w ''gcc'' = Inl IndexError \<or>
         first_visible_source w ''mingw'' = Inl IndexError"
  shows "fst (build_mingw_toolchain X prefix w) = Inl IndexError \<and>
         invoked (snd (build_mingw_toolchain X prefix w)) = invoked w"
proof -
  obtain w1 where s: "scratch_only (snd (get_build_env prefix [] [] ''x86_64-w64-mingw32'' w)) w1"
    and r: "build_mingw_toolchain X prefix w =
             (
              case first_visible_source w ''binutils'' of Inl e \<Rightarrow> (Inl e, w1) | Inr binutils \<Rightarrow>
              case first_visible_source w ''gcc'' of Inl e \<Rightarrow> (Inl e, w1) | Inr gcc \<Rightarrow>
              case first_visible_source w ''mingw'' of Inl e \<Rightarrow> (Inl e, w1) | Inr mingw \<Rightarrow>
                (thn (\<lambda>v. exec X (build_mingw_toolchain_steps1 (getcwd v) ''x86_64-w64-mingw32''
                                  (Obj (next_obj w)) binutils gcc mingw prefix) v) (
                 bnd (dict_copy (Obj (next_obj w))) (\<lambda>env_copy.
                 thn (setitem env_copy ''CC'' ''x86_64-w64-mingw32-gcc'') (
                 thn (setitem env_copy ''CXX'' ''x86_64-w64-mingw32-g++'') (
                 thn (setitem env_copy ''CPP'' ''x86_64-w64-mingw32-cpp'') (\<lambda>v.
                 exec X (build_mingw_toolchain_steps2 (getcwd v) ''x86_64-w64-mingw32''
                           (Obj (next_obj w)) env_copy mingw prefix) v)))))) w1)"
    using build_mingw_toolchain_run [OF assms(1-6), where X = X and prefix = prefix] unfolding glob0_sources by blast
  have i: "invoked w1 = invoked w"
    using s by (rule scratch_only_invoked)
  show ?thesis
    using assms(7) first_visible_source_cases [of w "''binutils''"] first_visible_source_cases [of w "''gcc''"] first_visible_source_cases [of w "''mingw''"]
    by (auto simp: r i)
qed

lemma map_args_stages_of:
  "map popen_args (stages_of w ss) = map popen_args (stages_of w' ss)"
  by (induction ss rule: stages_of.induct[of _ w]) simp_all

lemma build_mingw_toolchain_all:
  assumes "map_of (environ w) ''PATH'' = Some amb"
    and "creatable w ''build/build-binutils-x86_64-w64-mingw32''"
    and "creatable w ''build/build-gcc-x86_64-w64-mingw32''"
    and "creatable w ''build/build-mingw-headers-x86_64-w64-mingw32''"
    and "creatable w ''build/build-mingw-libs-x86_64-w64-mingw32''"
    and "creatable w ''build/build-mingw-winpthreads-x86_64-w64-mingw32''"
    and "first_visible_source w ''binutils'' = Inr binutils"
    and "first_visible_source w ''gcc'' = Inr gcc"
    and "first_visible_source w ''mingw'' = Inr mingw"
    and sp: "\<And>n st t. \<exists>p t'. runner X n st t = Spawned p t'"
  shows "fst (build_mingw_toolchain X prefix w) = Inr () \<and>
         map popen_args (invoked (snd (build_mingw_toolchain X prefix w))) =
           map popen_args (invoked w) @
           map popen_args (stages_of w
             (build_mingw_toolchain_steps1 (getcwd w) ''x86_64-w64-mingw32'' (Obj (next_obj w))
                binutils gcc mingw prefix)) @
           map popen_args (stages_of w
             (build_mingw_toolchain_steps2 (getcwd w) ''x86_64-w64-mingw32'' (Obj (next_obj w))
                (Obj (Suc (next_obj w))) mingw prefix))"
proof -
  let ?we = "snd (get_build_env prefix [] [] ''x86_64-w64-mingw32'' w)"
  let ?s1 = "build_mingw_toolchain_steps1 (getcwd w) ''x86_64-w64-mingw32'' (Obj (next_obj w))
               binutils gcc mingw prefix"
  let ?s2 = "build_mingw_toolchain_steps2 (getcwd w) ''x86_64-w64-mingw32'' (Obj (next_obj w))
               (Obj (Suc (next_obj w))) mingw prefix"
  obtain w1 where s: "scratch_only ?we w1"
    and r: "build_mingw_toolchain X prefix w =
              thn (\<lambda>v. exec X (build_mingw_toolchain_steps1 (getcwd v) ''x86_64-w64-mingw32''
                                  (Obj (next_obj w)) binutils gcc mingw prefix) v) (
                 bnd (dict_copy (Obj (next_obj w))) (\<lambda>env_copy.
                 thn (setitem env_copy ''CC'' ''x86_64-w64-mingw32-gcc'') (
                 thn (setitem env_copy ''CXX'' ''x86_64-w64-mingw32-g++'') (
                 thn (setitem env_copy ''CPP'' ''x86_64-w64-mingw32-cpp'') (\<lambda>v.
                 exec X (build_mingw_toolchain_steps2 (getcwd v) ''x86_64-w64-mingw32''
                           (Obj (next_obj w)) env_copy mingw prefix) v))))) w1"
    using build_mingw_toolchain_run [OF assms(1-6), where X = X and prefix = prefix]
    unfolding glob0_sources by (auto simp: assms(7-9))
  have i1: "invoked w1 = invoked w"
    using s by (rule scratch_only_invoked)
  have g1: "getcwd w1 = getcwd w"
    using scratch_only_fields(4) [OF s] get_build_env_same_fs(2) by metis
  have n1: "next_obj w1 = Suc (next_obj w)"
    using scratch_only_fields(3) [OF s] assms(1) by (simp add: get_build_env_result)
  obtain w2 where e1: "exec X ?s1 w1 = (Inr (), w2)"
    using exec_spawning [OF sp, of ?s1 w1] by (cases "exec X ?s1 w1") auto
  have i2: "invoked w2 = invoked w @ stages_of w1 ?s1"
    using exec_invoked_all [of X ?s1 w1] e1 i1 by simp
  have f2: "getcwd w2 = getcwd w" "next_obj w2 = Suc (next_obj w)"
    using exec_frame [of X ?s1 w1] e1 g1 n1 by simp_all
  define w3 where "w3 = snd ((bnd (dict_copy (Obj (next_obj w))) (\<lambda>env_copy.
                 thn (setitem env_copy ''CC'' ''x86_64-w64-mingw32-gcc'') (
                 thn (setitem env_copy ''CXX'' ''x86_64-w64-mingw32-g++'') (
                      setitem env_copy ''CPP'' ''x86_64-w64-mingw32-cpp'')))) w2)"
  have f3: "getcwd w3 = getcwd w" "invoked w3 = invoked w2"
    using f2 by (simp_all add: w3_def bnd_def thn_def dict_copy_def setitem_def)
  have r2: "build_mingw_toolchain X prefix w = exec X ?s2 w3"
    using e1 f2 by (simp add: r g1 w3_def bnd_def thn_def dict_copy_def setitem_def)
  have ok: "fst (exec X ?s2 w3) = Inr ()"
    using exec_spawning [OF sp, of ?s2 w3] .
  have i3: "invoked (snd (exec X ?s2 w3)) = invoked w3 @ stages_of w3 ?s2"
    using exec_invoked_all [OF ok] .
  show ?thesis
    using ok i3 i2 f3 map_args_stages_of [of w1 ?s1 w] map_args_stages_of [of w3 ?s2 w]
    by (simp add: r2)
qed

lemma source_world_facts:
  "map_of (environ source_world) ''PATH'' = Some ''/usr/bin:/bin''"
  "getcwd source_world = ''/work''"
  "invoked source_world = []"
  "next_obj source_world = 0"
  by (simp_all add: source_world_def)

lemma source_world_creatable:
  "creatable source_world ''build/build-binutils-x86_64-elf''"
  "creatable source_world ''build/build-gdb-x86_64-elf''"
  "creatable source_world ''build/build-gcc-x86_64-elf''"
  by code_simp+

lemma source_world_sources:
  "first_visible_source source_world ''binutils'' = Inr ''sources/binutils-2.41''"
  "first_visible_source source_world ''gdb'' = Inr ''sources/gdb-14.1''"
  "first_visible_source source_world ''gcc'' = Inr ''sources/gcc-13.2.0''"
  "first_visible_source source_world ''mingw'' = Inr ''sources/mingw-w64-v11.0.0''"
  by code_simp+

lemma failing_make_spawns: "\<exists>p t'. runner failing_make n st t = Spawned p t'"
  by (simp add: failing_make_def)

lemma abspath_examples:
  "abspath ''/work'' ''/opt/elf'' = ''/opt/elf''"
  "abspath ''/work'' ''/opt/mingw'' = ''/opt/mingw''"
  "abspath ''/work'' ''/opt/win-mingw'' = ''/opt/win-mingw''"
  "abspath ''/work'' ''/opt/win-elf'' = ''/opt/win-elf''"
  by code_simp+


lemma length_build_elf_toolchain_steps:
  "length (stages_of w0 (build_elf_toolchain_steps wd target env binutils gdb gcc prefix)) = 15"
  by (simp add: build_elf_toolchain_steps_def)



text \<open>
  Claim C10, as amended. Each component's Source Tree is what \<^verbatim>\<open>glob\<close> returns first:
  the first entry of \<^verbatim>\<open>sources\<close>, in listing order, whose name contains the component
  name and does not start with a dot. In each of the four build functions, when the
  ambient environment has a \<^verbatim>\<open>PATH\<close>, the scratch directories can be created and one of
  the required components has no such entry, the function raises \<^verbatim>\<open>IndexError\<close> and
  no Stage has been invoked.
\<close>

theorem source_tree_lookup:
  "fst (glob0 ''sources/*binutils*'' w) = first_visible_source w ''binutils'' \<and>
   fst (glob0 ''sources/*gcc*'' w) = first_visible_source w ''gcc'' \<and>
   fst (glob0 ''sources/*gdb*'' w) = first_visible_source w ''gdb'' \<and>
   fst (glob0 ''sources/*mingw*'' w) = first_visible_source w ''mingw'' \<and>
   (map_of (environ w) ''PATH'' \<noteq> None \<and>
    creatable w ''build/build-binutils-x86_64-w64-mingw32'' \<and>
    creatable w ''build/build-gcc-x86_64-w64-mingw32'' \<and>
    creatable w ''build/build-mingw-headers-x86_64-w64-mingw32'' \<and>
    creatable w ''build/build-mingw-libs-x86_64-w64-mingw32'' \<and>
    creatable w ''build/build-mingw-winpthreads-x86_64-w64-mingw32'' \<and>
    (first_visible_source w ''binutils'' = Inl IndexError \<or>
     first_visible_source w ''gcc'' = Inl IndexError \<or>
     first_visible_source w ''mingw'' = Inl IndexError) \<longrightarrow>
      fst (build_mingw_toolchain X prefix w) = Inl IndexError \<and>
      invoked (snd (build_mingw_toolchain X prefix w)) = invoked w) \<and>
   (map_of (environ w) ''PATH'' \<noteq> None \<and>
    creatable w ''build/build-binutils-x86_64-elf'' \<and>
    creatable w ''build/build-gdb-x86_64-elf'' \<and>
    creatable w ''build/build-gcc-x86_64-elf'' \<and>
    (first_visible_source w ''binutils'' = Inl IndexError \<or>
     first_visible_source w ''gdb'' = Inl IndexError \<or>
     first_visible_source w ''gcc'' = Inl IndexError) \<longrightarrow>
      fst (build_elf_toolchain X prefix w) = Inl IndexError \<and>
      invoked (snd (build_elf_toolchain X prefix w)) = invoked w) \<and>
   (map_of (environ w) ''PATH'' \<noteq> None \<and>
    creatable w ''build/build-win-binutils-x86_64-w64-mingw32'' \<and>
    creatable w ''build/build-win-gcc-x86_64-w64-mingw32'' \<and>
    creatable w ''build/build-win-mingw-headers-x86_64-w64-mingw32'' \<and>
    creatable w ''build/build-win-mingw-libs-x86_64-w64-mingw32'' \<and>
    creatable w ''build/build-win-mingw-winpthreads-x86_64-w64-mingw32'' \<and>
    (first_visible_source w ''binutils'' = Inl IndexError \<or>
     first_visible_source w ''gcc'' = Inl IndexError \<or>
     first_visible_source w ''mingw'' = Inl IndexError) \<longrightarrow>
      fst (build_win_mingw X prefix mingw_prefix w) = Inl IndexError \<and>
      invoked (snd (build_win_mingw X prefix mingw_prefix w)) = invoked w) \<and>
   (map_of (environ w) ''PATH'' \<noteq> None \<and>
    creatable w ''build/build-win-elf-binutils-x86_64-elf'' \<and>
    creatable w ''build/build-win-elf-gdb-x86_64-elf'' \<and>
    creatable w ''build/build-win-elf-gcc-x86_64-elf'' \<and>
    (first_visible_source w ''binutils'' = Inl IndexError \<or>
     first_visible_source w ''gdb'' = Inl IndexError \<or>
     first_visible_source w ''gcc'' = Inl IndexError) \<longrightarrow>
      fst (build_win_elf X prefix mingw_prefix elf_prefix win_mingw_prefix w) = Inl IndexError \<and>
      invoked (snd (build_win_elf X prefix mingw_prefix elf_prefix win_mingw_prefix w)) =
        invoked w)"
proof -
  have p: "\<exists>amb. map_of (environ w) ''PATH'' = Some amb" if "map_of (environ w) ''PATH'' \<noteq> None"
    using that by blast
  show ?thesis
    using glob0_sources [of w] p
      build_mingw_toolchain_missing [where w = w and X = X and prefix = prefix]
      build_elf_toolchain_missing [where w = w and X = X and prefix = prefix]
      build_win_mingw_missing [where w = w and X = X and prefix = prefix
        and mingw_prefix = mingw_prefix]
      build_win_elf_missing [where w = w and X = X and prefix = prefix
        and mingw_prefix = mingw_prefix and elf_prefix = elf_prefix
        and win_mingw_prefix = win_mingw_prefix]
    by blast
qed

lemma scratch_world_facts:
  "map_of (environ scratch_world) ''PATH'' \<noteq> None"
  "invoked scratch_world = []"
  by (simp_all add: scratch_world_def)

lemma scratch_world_creatable:
  "creatable scratch_world ''build/build-binutils-x86_64-elf''"
  "creatable scratch_world ''build/build-gdb-x86_64-elf''"
  "creatable scratch_world ''build/build-gcc-x86_64-elf''"
  by code_simp+

lemma scratch_world_sources:
  "first_visible_source scratch_world ''binutils'' = Inl IndexError"
  by code_simp

theorem source_tree_lookup_witness:
  "fst (build_elf_toolchain failing_make ''/opt/elf'' scratch_world) = Inl IndexError \<and>
   invoked (snd (build_elf_toolchain failing_make ''/opt/elf'' scratch_world)) = []"
  using source_tree_lookup [of scratch_world failing_make "''/opt/elf''" "[]" "[]" "[]"]
    scratch_world_facts scratch_world_creatable scratch_world_sources
  by simp

lemma hidden_world_facts:
  "map_of (environ hidden_world) ''PATH'' = Some ''/usr/bin''"
  "getcwd hidden_world = ''/work''"
  "invoked hidden_world = []"
  "next_obj hidden_world = 0"
  by (simp_all add: hidden_world_def)

lemma hidden_world_creatable:
  "creatable hidden_world ''build/build-binutils-x86_64-elf''"
  "creatable hidden_world ''build/build-gdb-x86_64-elf''"
  "creatable hidden_world ''build/build-gcc-x86_64-elf''"
  by code_simp+

lemma hidden_world_sources:
  "first_visible_source hidden_world ''binutils'' = Inr ''sources/binutils-2.41''"
  "first_visible_source hidden_world ''gdb'' = Inr ''sources/gdb-14.1''"
  "first_visible_source hidden_world ''gcc'' = Inr ''sources/gcc-13.2.0''"
  by code_simp+

text \<open>
  Claim C10 as stated fails on an entry whose name starts with a dot: here the first entry
  of \<^verbatim>\<open>sources\<close> whose name contains \<^verbatim>\<open>gdb\<close> is \<^verbatim>\<open>.gdbinit\<close>, and the build
  function takes \<^verbatim>\<open>gdb-14.1\<close>.
\<close>

theorem first_named_source_counterexample:
  "first_named_source hidden_world ''gdb'' = Inr ''sources/.gdbinit'' \<and>
   fst (glob0 ''sources/*gdb*'' hidden_world) = Inr ''sources/gdb-14.1'' \<and>
   map popen_args (invoked (snd (build_elf_toolchain failing_make ''/opt/elf'' hidden_world))) ! 12
     = ''../../sources/gdb-14.1/configure --target=x86_64-elf --prefix=/opt/elf --with-gmp=/opt/elf --with-mpfr=/opt/elf --without-zstd --disable-nls --disable-werror''"
proof -
  let ?r = "build_elf_toolchain failing_make ''/opt/elf'' hidden_world"
  have n: "first_named_source hidden_world ''gdb'' = Inr ''sources/.gdbinit''"
    by code_simp
  have g: "fst (glob0 ''sources/*gdb*'' hidden_world) = Inr ''sources/gdb-14.1''"
    by (simp only: glob0_sources hidden_world_sources)
  note t = build_elf_toolchain_trace [OF hidden_world_facts(1) hidden_world_creatable
      hidden_world_sources(1,2,3), of failing_make "''/opt/elf''"]
  have ok: "fst ?r = Inr ()"
    using t(3) failing_make_spawns by blast
  have i: "invoked (snd ?r) =
             stages_of (snd (get_build_env ''/opt/elf'' [] [] ''x86_64-elf'' hidden_world))
               (build_elf_toolchain_steps ''/work'' ''x86_64-elf'' (Obj 0)
                  ''sources/binutils-2.41'' ''sources/gdb-14.1'' ''sources/gcc-13.2.0'' ''/opt/elf'')"
    using t(2) [OF ok] by (simp add: hidden_world_facts)
  have "map popen_args (invoked (snd ?r)) ! 12
     = ''../../sources/gdb-14.1/configure --target=x86_64-elf --prefix=/opt/elf --with-gmp=/opt/elf --with-mpfr=/opt/elf --without-zstd --disable-nls --disable-werror''"
    unfolding i by (simp add: build_elf_toolchain_steps_def abspath_examples)
  then show ?thesis
    using n g by blast
qed

lemma in_take_drop:
  assumes "xs = ys @ take k zs" and "x \<in> set (drop (length ys) xs)"
  shows "x \<in> set zs"
  using assms by (auto dest: in_set_takeD)

text \<open>
  Claim C4, as amended. In \<open>build_win_elf\<close> every Stage runs in the environment that
  \<open>get_build_env\<close> composes from the install prefix, the native MinGW prefix and the native
  ELF prefix: with both non-empty, its search path holds the \<^verbatim>\<open>bin\<close> of the install
  prefix, of the MinGW prefix and of the ELF prefix, in this order, before the ambient
  path. The gdb configure Stage passes the Windows-hosted MinGW prefix as both its
  \<^verbatim>\<open>--with-gmp\<close> and its \<^verbatim>\<open>--with-mpfr\<close> hint. (Stated for a run whose environment is
  composed, whose scratch directories can be created and whose source trees are found.)
\<close>

theorem build_win_elf_stage_environment:
  assumes "map_of (environ w) ''PATH'' = Some amb"
    and "creatable w ''build/build-win-elf-binutils-x86_64-elf''"
    and "creatable w ''build/build-win-elf-gdb-x86_64-elf''"
    and "creatable w ''build/build-win-elf-gcc-x86_64-elf''"
    and "first_visible_source w ''binutils'' = Inr binutils"
    and "first_visible_source w ''gdb'' = Inr gdb"
    and "first_visible_source w ''gcc'' = Inr gcc"
  shows
   "drop (length (invoked w))
      (invoked (snd (build_win_elf X prefix mingw_prefix elf_prefix win_mingw_prefix w))) \<noteq> [] \<and>
    (\<forall>st \<in> set (drop (length (invoked w))
         (invoked (snd (build_win_elf X prefix mingw_prefix elf_prefix win_mingw_prefix w)))).
       popen_env st =
         Some (deref (snd (get_build_env prefix mingw_prefix elf_prefix ''x86_64-elf'' w))
                 (Obj (next_obj w))) \<and>
       (popen_cwd st = Some ''build/build-win-elf-gdb-x86_64-elf/'' \<and>
        startswith (popen_args st) ''../../'' \<longrightarrow>
          popen_args st =
            ''../../'' @ gdb @ ''/configure --host=x86_64-w64-mingw32 --target=x86_64-elf --prefix=''
              @ abspath (getcwd w) prefix
              @ '' --with-gmp='' @ abspath (getcwd w) win_mingw_prefix
              @ '' --with-mpfr='' @ abspath (getcwd w) win_mingw_prefix
              @ '' --without-zstd --disable-nls --disable-werror'')) \<and>
    (mingw_prefix \<noteq> [] \<and> elf_prefix \<noteq> [] \<longrightarrow>
       map_of (deref (snd (get_build_env prefix mingw_prefix elf_prefix ''x86_64-elf'' w))
                 (Obj (next_obj w))) ''PATH'' =
         Some (abspath (getcwd w) prefix @ ''/bin:'' @ abspath (getcwd w) mingw_prefix @ ''/bin:''
               @ abspath (getcwd w) elf_prefix @ ''/bin:'' @ amb)) \<and>
    (fst (build_win_elf X prefix mingw_prefix elf_prefix win_mingw_prefix w) = Inr () \<longrightarrow>
       (\<exists>st \<in> set (drop (length (invoked w))
          (invoked (snd (build_win_elf X prefix mingw_prefix elf_prefix win_mingw_prefix w)))).
          popen_cwd st = Some ''build/build-win-elf-gdb-x86_64-elf/'' \<and>
          startswith (popen_args st) ''../../''))"
proof -
  let ?r = "build_win_elf X prefix mingw_prefix elf_prefix win_mingw_prefix w"
  let ?we = "snd (get_build_env prefix mingw_prefix elf_prefix ''x86_64-elf'' w)"
  let ?full = "stages_of ?we
                 (build_win_elf_steps (getcwd w) ''x86_64-w64-mingw32'' ''x86_64-elf''
                    (Obj (next_obj w)) binutils gdb gcc prefix win_mingw_prefix)"
  let ?new = "drop (length (invoked w)) (invoked (snd ?r))"
  note t = build_win_elf_trace [OF assms, where X = X and prefix = prefix
      and mingw_prefix = mingw_prefix and elf_prefix = elf_prefix
      and win_mingw_prefix = win_mingw_prefix]
  obtain k where k: "0 < k" and i: "invoked (snd ?r) = invoked w @ take k ?full"
    using t(1) by blast
  have ne: "?full \<noteq> []"
    by (simp add: build_win_elf_steps_def)
  have 1: "?new \<noteq> []"
    using k ne by (simp add: i)
  have all: "\<forall>st \<in> set ?full.
       popen_env st = Some (deref ?we (Obj (next_obj w))) \<and>
       (popen_cwd st = Some ''build/build-win-elf-gdb-x86_64-elf/'' \<and>
        startswith (popen_args st) ''../../'' \<longrightarrow>
          popen_args st =
            ''../../'' @ gdb @ ''/configure --host=x86_64-w64-mingw32 --target=x86_64-elf --prefix=''
              @ abspath (getcwd w) prefix
              @ '' --with-gmp='' @ abspath (getcwd w) win_mingw_prefix
              @ '' --with-mpfr='' @ abspath (getcwd w) win_mingw_prefix
              @ '' --without-zstd --disable-nls --disable-werror'')"
    by (simp add: build_win_elf_steps_def)
  have 2: "\<forall>st \<in> set ?new.
       popen_env st = Some (deref ?we (Obj (next_obj w))) \<and>
       (popen_cwd st = Some ''build/build-win-elf-gdb-x86_64-elf/'' \<and>
        startswith (popen_args st) ''../../'' \<longrightarrow>
          popen_args st =
            ''../../'' @ gdb @ ''/configure --host=x86_64-w64-mingw32 --target=x86_64-elf --prefix=''
              @ abspath (getcwd w) prefix
              @ '' --with-gmp='' @ abspath (getcwd w) win_mingw_prefix
              @ '' --with-mpfr='' @ abspath (getcwd w) win_mingw_prefix
              @ '' --without-zstd --disable-nls --disable-werror'')"
    using all in_take_drop [OF i] by blast
  have 3: "map_of (deref ?we (Obj (next_obj w))) ''PATH'' =
         Some (abspath (getcwd w) prefix @ ''/bin:'' @ abspath (getcwd w) mingw_prefix @ ''/bin:''
               @ abspath (getcwd w) elf_prefix @ ''/bin:'' @ amb)"
    if "mingw_prefix \<noteq> [] \<and> elf_prefix \<noteq> []"
    using that assms(1) by (simp add: get_build_env_result map_of_update)
  have 4: "\<exists>st \<in> set ?new. popen_cwd st = Some ''build/build-win-elf-gdb-x86_64-elf/'' \<and>
          startswith (popen_args st) ''../../''"
    if ok: "fst ?r = Inr ()"
  proof -
    have "?new = ?full"
      using t(2) [OF ok] by simp
    then show ?thesis
      by (simp add: build_win_elf_steps_def)
  qed
  show ?thesis
    using 1 2 3 4 by blast
qed

lemma source_world_creatable_win_elf:
  "creatable source_world ''build/build-win-elf-binutils-x86_64-elf''"
  "creatable source_world ''build/build-win-elf-gdb-x86_64-elf''"
  "creatable source_world ''build/build-win-elf-gcc-x86_64-elf''"
  by code_simp+

lemma source_world_win_elf_env:
  "deref (snd (get_build_env ''/opt/win-elf'' ''/opt/mingw'' ''/opt/elf'' ''x86_64-elf'' source_world))
     (Obj 0) =
   [(''HOME'', ''/root''),
    (''PATH'', ''/opt/win-elf/bin:/opt/mingw/bin:/opt/elf/bin:/usr/bin:/bin''),
    (''PREFIX'', ''/opt/win-elf''), (''TARGET'', ''x86_64-elf'')]"
  "deref (snd (get_build_env ''/opt/win-elf'' ''/opt/mingw'' [] ''x86_64-elf'' source_world))
     (Obj 0) =
   [(''HOME'', ''/root''),
    (''PATH'', ''/opt/win-elf/bin:/opt/mingw/bin:/usr/bin:/bin''),
    (''PREFIX'', ''/opt/win-elf''), (''TARGET'', ''x86_64-elf'')]"
  by (simp_all add: get_build_env_result source_world_def abspath_examples)

lemma hd_invoked_build_win_elf:
  "popen_env (hd (invoked (snd (build_win_elf failing_make ''/opt/win-elf'' ''/opt/mingw'' e
       ''/opt/win-mingw'' source_world)))) =
   Some (deref (snd (get_build_env ''/opt/win-elf'' ''/opt/mingw'' e ''x86_64-elf'' source_world))
          (Obj 0))"
proof -
  let ?r = "build_win_elf failing_make ''/opt/win-elf'' ''/opt/mingw'' e ''/opt/win-mingw''
              source_world"
  note t = build_win_elf_trace [OF source_world_facts(1) source_world_creatable_win_elf
      source_world_sources(1,2,3), where X = failing_make and prefix = "''/opt/win-elf''"
      and mingw_prefix = "''/opt/mingw''" and elf_prefix = e
      and win_mingw_prefix = "''/opt/win-mingw''"]
  have ok: "fst ?r = Inr ()"
    using t(3) failing_make_spawns by blast
  show ?thesis
    using t(2) [OF ok] by (simp add: source_world_facts build_win_elf_steps_def)
qed

text \<open>
  Claim C4 as stated fails where it says that the native ELF prefix is not needed: the
  Environment Composer is given it, and the environment of the Stages has its \<^verbatim>\<open>bin\<close>
  on the search path, which is not the environment composed without it.
\<close>

theorem build_win_elf_needs_elf_prefix_counterexample:
  "popen_env (hd (invoked (snd (build_win_elf failing_make ''/opt/win-elf'' ''/opt/mingw''
       ''/opt/elf'' ''/opt/win-mingw'' source_world)))) =
     Some [(''HOME'', ''/root''),
           (''PATH'', ''/opt/win-elf/bin:/opt/mingw/bin:/opt/elf/bin:/usr/bin:/bin''),
           (''PREFIX'', ''/opt/win-elf''), (''TARGET'', ''x86_64-elf'')] \<and>
   popen_env (hd (invoked (snd (build_win_elf failing_make ''/opt/win-elf'' ''/opt/mingw''
       [] ''/opt/win-mingw'' source_world)))) =
     Some [(''HOME'', ''/root''),
           (''PATH'', ''/opt/win-elf/bin:/opt/mingw/bin:/usr/bin:/bin''),
           (''PREFIX'', ''/opt/win-elf''), (''TARGET'', ''x86_64-elf'')]"
  by (simp only: hd_invoked_build_win_elf source_world_win_elf_env simp_thms)

theorem build_win_elf_stage_environment_witness:
  "invoked (snd (build_win_elf failing_make ''/opt/win-elf'' ''/opt/mingw'' ''/opt/elf''
      ''/opt/win-mingw'' source_world)) \<noteq> [] \<and>
   map_of (deref (snd (get_build_env ''/opt/win-elf'' ''/opt/mingw'' ''/opt/elf'' ''x86_64-elf''
                         source_world)) (Obj 0)) ''PATH'' =
     Some ''/opt/win-elf/bin:/opt/mingw/bin:/opt/elf/bin:/usr/bin:/bin''"
  using build_win_elf_stage_environment [OF source_world_facts(1) source_world_creatable_win_elf
      source_world_sources(1,2,3), where X = failing_make and prefix = "''/opt/win-elf''"
      and mingw_prefix = "''/opt/mingw''" and elf_prefix = "''/opt/elf''"
      and win_mingw_prefix = "''/opt/win-mingw''"]
  by (simp add: source_world_facts abspath_examples)

lemma length_build_win_mingw_steps:
  "length (stages_of w0 (build_win_mingw_steps wd target env binutils gcc mingw prefix)) = 15"
  by (simp add: build_win_mingw_steps_def)


lemma source_world_creatable_mingw:
  "creatable source_world ''build/build-binutils-x86_64-w64-mingw32''"
  "creatable source_world ''build/build-gcc-x86_64-w64-mingw32''"
  "creatable source_world ''build/build-mingw-headers-x86_64-w64-mingw32''"
  "creatable source_world ''build/build-mingw-libs-x86_64-w64-mingw32''"
  "creatable source_world ''build/build-mingw-winpthreads-x86_64-w64-mingw32''"
  by code_simp+

lemma source_world_creatable_win_mingw:
  "creatable source_world ''build/build-win-binutils-x86_64-w64-mingw32''"
  "creatable source_world ''build/build-win-gcc-x86_64-w64-mingw32''"
  "creatable source_world ''build/build-win-mingw-headers-x86_64-w64-mingw32''"
  "creatable source_world ''build/build-win-mingw-libs-x86_64-w64-mingw32''"
  "creatable source_world ''build/build-win-mingw-winpthreads-x86_64-w64-mingw32''"
  by code_simp+



subsection \<open>The record of calls only grows\<close>

text \<open>
  Every part of the program only adds to the record of calls; \<open>appends\<close> says so of one
  computation.
\<close>

lemma appendsI: "(\<And>w. \<exists>more. invoked (snd (m w)) = invoked w @ more) \<Longrightarrow> appends m"
  by (simp add: appends_def)

lemma appendsD: "appends m \<Longrightarrow> \<exists>more. invoked (snd (m w)) = invoked w @ more"
  by (simp add: appends_def)

lemma appends_ret [simp]: "appends (ret x)"
  by (simp add: appends_def ret_def)

lemma appends_raise [simp]: "appends (raise e)"
  by (simp add: appends_def raise_def)

lemma appends_bnd:
  assumes "appends m" and "\<And>x. appends (f x)"
  shows "appends (bnd m f)"
proof (rule appendsI)
  fix w
  obtain r w1 where m: "m w = (r, w1)"
    by (cases "m w")
  obtain a where a: "invoked w1 = invoked w @ a"
    using appendsD [OF assms(1), of w] m by auto
  show "\<exists>more. invoked (snd (bnd m f w)) = invoked w @ more"
  proof (cases r)
    case (Inl e)
    then show ?thesis using m a by (simp add: bnd_def)
  next
    case (Inr x)
    obtain b where "invoked (snd (f x w1)) = invoked w1 @ b"
      using appendsD [OF assms(2), of x w1] by auto
    then show ?thesis using m a Inr by (simp add: bnd_def)
  qed
qed

lemma appends_thn: "appends m \<Longrightarrow> appends k \<Longrightarrow> appends (thn m k)"
  by (simp add: thn_def appends_bnd)

lemma appends_if_then: "appends m \<Longrightarrow> appends (if_then b m)"
  by (simp add: if_then_def)

lemma appends_print [simp]: "appends (print s)"
  by (simp add: appends_def print_def)

lemma appends_item [simp]: "appends (item d k)"
  by (simp add: item_def split: option.splits)

lemma appends_makedirs [simp]: "appends (makedirs name)"
  by (simp add: appends_def makedirs_def split: sum.splits)

lemma appends_glob0 [simp]: "appends (glob0 pathname)"
  by (simp add: appends_def)

lemma appends_get_build_env [simp]: "appends (get_build_env prefix mingw_gcc elf_gcc target)"
  by (simp add: appends_def get_build_env_same_fs)

lemma appends_exec [simp]: "appends (exec X ss)"
  using exec_invoked_prefix by (intro appendsI) blast

lemma appends_exec_at: "appends (\<lambda>w. exec X (f w) w)"
proof (rule appendsI)
  fix w
  show "\<exists>more. invoked (snd (exec X (f w) w)) = invoked w @ more"
    using exec_invoked_prefix [of w "f w" X] by blast
qed

lemma appends_open_w [simp]: "appends (open_w path)"
  by (simp add: appends_def open_w_def split: sum.splits)

lemma appends_listdir [simp]: "appends (listdir path)"
  by (simp add: appends_def listdir_def split: option.splits node.splits)

lemma appends_pack_compiler [simp]: "appends (pack_compiler ap p arch pl bf)"
  unfolding pack_compiler_def
  by (rule appends_thn, simp, rule appends_bnd, simp, simp)

lemma appends_build_win_elf [simp]: "appends (build_win_elf X p m e wm)"
  unfolding build_win_elf_def Let_def
  by (rule appends_bnd, simp, (rule appends_thn, simp)+, (rule appends_bnd, simp)+,
      rule appends_exec_at)

subsection \<open>From the command line to a Windows-hosted Recipe\<close>

lemma printed_update_facts [simp]:
  "creatable (w\<lparr>printed := x\<rparr>) n = creatable w n"
  "first_visible_source (w\<lparr>printed := x\<rparr>) c = first_visible_source w c"
  by (simp_all add: creatable_def first_visible_source_def stat_def)

lemma bnd_load_config:
  "json_load X path (fs w) = Inr d \<Longrightarrow> bnd (load_config X path) F w = F d w"
  by (simp add: bnd_def load_config_def)

lemma thn_guard:
  "thn (\<lambda>w. if_then (\<not> isdir w d) M w) K w = (if isdir w d then K w else thn M K w)"
  by (simp add: thn_def bnd_def if_then_def ret_def)

lemma if_then_simps: "if_then True m = m" "if_then False m = ret ()"
  by (simp_all add: if_then_def)

lemma item_found: "map_of d k = Some v \<Longrightarrow> item d k = ret v"
  by (simp add: item_def)

lemma thn_print_build:
  assumes "appends K"
  shows "\<exists>more. invoked (snd (thn (thn (print s) (thn B (print d))) K w)) =
           invoked (snd (B (w\<lparr>printed := printed w @ [s @ newline]\<rparr>))) @ more"
proof -
  let ?w' = "w\<lparr>printed := printed w @ [s @ newline]\<rparr>"
  obtain r w2 where b: "B ?w' = (r, w2)"
    by (cases "B ?w'")
  show ?thesis
  proof (cases r)
    case (Inl e)
    then show ?thesis
      using b by (simp add: thn_def bnd_def print_def)
  next
    case (Inr u)
    let ?w3 = "w2\<lparr>printed := printed w2 @ [d @ newline]\<rparr>"
    have "thn (thn (print s) (thn B (print d))) K w = K ?w3"
      using b Inr by (simp add: thn_def bnd_def print_def)
    moreover obtain more where "invoked (snd (K ?w3)) = invoked ?w3 @ more"
      using appendsD [OF assms, of ?w3] by blast
    ultimately show ?thesis
      using b by simp
  qed
qed

lemma main_reaches_build_win_mingw:
  assumes "json_load X (opt_config a) (fs w) = Inr config"
    and "\<not> opt_cleanup a" and "isdir w ''tarballs''" and "isdir w ''sources''"
    and "\<not> opt_build_mingw a" and "\<not> opt_build_elf a" and "opt_build_win_mingw a"
    and "map_of config ''mingw_win_prefix'' = Some p"
    and "map_of config ''mingw_prefix'' = Some m"
  shows "\<exists>more. invoked (snd (main X a w)) =
           invoked (snd (build_win_mingw X p m
             (w\<lparr>printed := printed w @ [''Building Windows MinGW toolchain...'' @ newline]\<rparr>)))
           @ more"
proof -
  have "\<exists>K. appends K \<and>
          main X a w =
            thn (thn (print ''Building Windows MinGW toolchain...'')
                   (thn (build_win_mingw X p m) (print ''Done.''))) K w"
    unfolding main_def
    apply (simp only: bnd_load_config [OF assms(1)] assms(2-7) if_False thn_guard if_True
        if_then_simps thn_ret item_found [OF assms(8)] item_found [OF assms(9)] bnd_ret
        simp_thms)
    apply (rule exI)
    apply (rule conjI)
     prefer 2
     apply (rule refl)
    apply (unfold Let_def)
    apply (intro appends_thn appends_if_then appends_bnd appends_print appends_item
        appends_makedirs appends_pack_compiler appends_build_win_elf)
    done
  then obtain K where "appends K"
    and "main X a w =
            thn (thn (print ''Building Windows MinGW toolchain...'')
                   (thn (build_win_mingw X p m) (print ''Done.''))) K w"
    by blast
  then show ?thesis
    using thn_print_build [of K "''Building Windows MinGW toolchain...''"
        "build_win_mingw X p m" "''Done.''" w]
    by simp
qed

subsection \<open>The first Stage of the Windows-hosted Recipes\<close>

lemma take_pos_Cons: "0 < k \<Longrightarrow> take k (x # xs) = x # take (k - 1) xs"
  by (cases k) simp_all

lemma build_win_mingw_first_stage:
  assumes "map_of (environ w) ''PATH'' = Some amb"
    and "creatable w ''build/build-win-binutils-x86_64-w64-mingw32''"
    and "creatable w ''build/build-win-gcc-x86_64-w64-mingw32''"
    and "creatable w ''build/build-win-mingw-headers-x86_64-w64-mingw32''"
    and "creatable w ''build/build-win-mingw-libs-x86_64-w64-mingw32''"
    and "creatable w ''build/build-win-mingw-winpthreads-x86_64-w64-mingw32''"
    and "first_visible_source w ''binutils'' = Inr binutils"
    and "first_visible_source w ''gcc'' = Inr gcc"
    and "first_visible_source w ''mingw'' = Inr mingw"
  shows "\<exists>env more.
           invoked (snd (build_win_mingw X prefix mingw_prefix w)) =
             invoked w @
             \<lparr>popen_args = ''../../'' @ binutils @ ''/configure --host=x86_64-w64-mingw32 --target=x86_64-w64-mingw32 --prefix=''
                  @ abspath (getcwd w) prefix
                  @ '' --disable-multilib --disable-nls --disable-werror --without-zstd'',
               popen_env = Some env,
               popen_cwd = Some ''build/build-win-binutils-x86_64-w64-mingw32/'',
               popen_pipe = True\<rparr> # more"
proof -
  obtain k where k: "0 < k"
    and i: "invoked (snd (build_win_mingw X prefix mingw_prefix w)) =
             invoked w @ take k (stages_of (snd (get_build_env prefix mingw_prefix [] ''x86_64-w64-mingw32'' w))
               (build_win_mingw_steps (getcwd w) ''x86_64-w64-mingw32'' (Obj (next_obj w))
                          binutils gcc mingw prefix))"
    using build_win_mingw_trace(1) [OF assms, where X = X and prefix = prefix
        and mingw_prefix = mingw_prefix] by blast
  show ?thesis
    unfolding i using k by (simp add: build_win_mingw_steps_def take_pos_Cons)
qed

lemma build_win_elf_first_stage:
  assumes "map_of (environ w) ''PATH'' = Some amb"
    and "creatable w ''build/build-win-elf-binutils-x86_64-elf''"
    and "creatable w ''build/build-win-elf-gdb-x86_64-elf''"
    and "creatable w ''build/build-win-elf-gcc-x86_64-elf''"
    and "first_visible_source w ''binutils'' = Inr binutils"
    and "first_visible_source w ''gdb'' = Inr gdb"
    and "first_visible_source w ''gcc'' = Inr gcc"
  shows "\<exists>env more.
           invoked (snd (build_win_elf X prefix mingw_prefix elf_prefix win_mingw_prefix w)) =
             invoked w @
             \<lparr>popen_args = ''../../'' @ binutils @ ''/configure --host=x86_64-w64-mingw32 --target=x86_64-elf --prefix=''
                  @ abspath (getcwd w) prefix
                  @ '' --disable-nls --disable-werror --without-zstd'',
               popen_env = Some env,
               popen_cwd = Some ''build/build-win-elf-binutils-x86_64-elf/'',
               popen_pipe = True\<rparr> # more"
proof -
  obtain k where k: "0 < k"
    and i: "invoked (snd (build_win_elf X prefix mingw_prefix elf_prefix win_mingw_prefix w)) =
             invoked w @ take k (stages_of (snd (get_build_env prefix mingw_prefix elf_prefix ''x86_64-elf'' w))
               (build_win_elf_steps (getcwd w) ''x86_64-w64-mingw32'' ''x86_64-elf''
                          (Obj (next_obj w)) binutils gdb gcc prefix win_mingw_prefix))"
    using build_win_elf_trace(1) [OF assms, where X = X and prefix = prefix
        and mingw_prefix = mingw_prefix and elf_prefix = elf_prefix
        and win_mingw_prefix = win_mingw_prefix] by blast
  show ?thesis
    unfolding i using k by (simp add: build_win_elf_steps_def take_pos_Cons)
qed

lemma main_first_stage:
  assumes "json_load X (opt_config a) (fs w) = Inr config"
    and "\<not> opt_cleanup a" and "isdir w ''tarballs''" and "isdir w ''sources''"
    and "\<not> opt_build_mingw a" and "\<not> opt_build_elf a" and "opt_build_win_mingw a"
    and "map_of config ''mingw_win_prefix'' = Some p"
    and "map_of config ''mingw_prefix'' = Some m"
    and "map_of (environ w) ''PATH'' = Some amb"
    and "creatable w ''build/build-win-binutils-x86_64-w64-mingw32''"
    and "creatable w ''build/build-win-gcc-x86_64-w64-mingw32''"
    and "creatable w ''build/build-win-mingw-headers-x86_64-w64-mingw32''"
    and "creatable w ''build/build-win-mingw-libs-x86_64-w64-mingw32''"
    and "creatable w ''build/build-win-mingw-winpthreads-x86_64-w64-mingw32''"
    and "first_visible_source w ''binutils'' = Inr binutils"
    and "first_visible_source w ''gcc'' = Inr gcc"
    and "first_visible_source w ''mingw'' = Inr mingw"
  shows "\<exists>env more.
           invoked (snd (main X a w)) =
             invoked w @
             \<lparr>popen_args = ''../../'' @ binutils @ ''/configure --host=x86_64-w64-mingw32 --target=x86_64-w64-mingw32 --prefix=''
                  @ abspath (getcwd w) p
                  @ '' --disable-multilib --disable-nls --disable-werror --without-zstd'',
               popen_env = Some env,
               popen_cwd = Some ''build/build-win-binutils-x86_64-w64-mingw32/'',
               popen_pipe = True\<rparr> # more"
proof -
  let ?w = "w\<lparr>printed := printed w @ [''Building Windows MinGW toolchain...'' @ newline]\<rparr>"
  obtain tl where r: "invoked (snd (main X a w)) = invoked (snd (build_win_mingw X p m ?w)) @ tl"
    using main_reaches_build_win_mingw [OF assms(1-9)] by blast
  have "\<exists>env more.
           invoked (snd (build_win_mingw X p m ?w)) =
             invoked ?w @
             \<lparr>popen_args = ''../../'' @ binutils @ ''/configure --host=x86_64-w64-mingw32 --target=x86_64-w64-mingw32 --prefix=''
                  @ abspath (getcwd ?w) p
                  @ '' --disable-multilib --disable-nls --disable-werror --without-zstd'',
               popen_env = Some env,
               popen_cwd = Some ''build/build-win-binutils-x86_64-w64-mingw32/'',
               popen_pipe = True\<rparr> # more"
    by (rule build_win_mingw_first_stage [where amb = amb and gcc = gcc and mingw = mingw])
       (simp_all add: assms(10-18))
  then show ?thesis
    unfolding r by auto
qed


lemma source_world_dirs:
  "isdir source_world ''tarballs''"
  "isdir source_world ''sources''"
  "\<not> isdir source_world ''/opt/mingw''"
  "stat source_world ''/opt/mingw'' = None"
  "stat source_world ''/opt/elf'' = None"
  by code_simp+

lemma failing_make_config:
  "json_load failing_make path t =
     Inr [(''mingw_prefix'', ''/opt/mingw''), (''mingw_win_prefix'', ''/opt/win-mingw'')]"
  by (simp add: failing_make_def)



end
